theory Spec2Isabelle
  imports Complex_Main "HOL-Library.AList" "HOL-Library.Sublist"
begin

section \<open>JavaScript values used by the integrations\<close>

text \<open>
  Numbers are modelled exactly: attempt counters, HTTP statuses and timeouts are
  integers, delays are rationals (the source computes \<open>baseDelayMs * Math.pow(2, attempt - 2)\<close>,
  which is a half of \<open>baseDelayMs\<close> on the first attempt). Rounding, \<open>NaN\<close> and
  infinities of IEEE doubles are outside the model.
\<close>

text \<open>Decimal rendering of a number inside a template literal, \<open>`${n}`\<close>.\<close>

fun toString_nat :: "nat \<Rightarrow> string" where
  "toString_nat n =
     (if n < 10 then [''0123456789'' ! n]
      else toString_nat (n div 10) @ [''0123456789'' ! (n mod 10)])"

declare toString_nat.simps [simp del]

definition toString :: "int \<Rightarrow> string" where
  "toString i = (if i < 0 then ''-'' @ toString_nat (nat (- i)) else toString_nat (nat i))"

text \<open>The nullish coalescing operator \<open>a ?? d\<close>.\<close>

definition nullish :: "'a option \<Rightarrow> 'a \<Rightarrow> 'a" where
  "nullish a d = (case a of None \<Rightarrow> d | Some v \<Rightarrow> v)"

text \<open>
  Truthiness of an optional string, as tested by \<open>if (s)\<close> and \<open>!s\<close>: \<open>undefined\<close>
  and the empty string are falsy.
\<close>

definition truthy :: "string option \<Rightarrow> bool" where
  "truthy s = (case s of None \<Rightarrow> False | Some v \<Rightarrow> v \<noteq> [])"

text \<open>
  \<open>Record<string, string>\<close>: the own entries of an object, as \<open>Object.entries\<close>
  lists them. \<open>obj[key]\<close> is \<open>map_of obj key\<close>. The list keeps the order of
  insertion; that JavaScript lists keys that look like array indices first is not
  modelled, and no statement below depends on the order.
\<close>

type_synonym headers = "(string \<times> string) list"

text \<open>
  The assignment \<open>obj[key] = value\<close> of a string to an object made by an object
  literal. The key \<open>__proto__\<close> is the accessor that \<open>Object.prototype\<close> provides: its
  setter ignores a value that is not an object, so the assignment adds no entry and
  changes nothing. Every other key gets an own entry: an existing entry is overwritten
  in place, a new one is appended.
\<close>

definition assign :: "string \<Rightarrow> string \<Rightarrow> headers \<Rightarrow> headers" where
  "assign key val obj = (if key = ''__proto__'' then obj else AList.update key val obj)"

section \<open>The network as seen by one delivery\<close>

text \<open>
  What \<open>await fetch(...)\<close> evaluates to. \<open>Response status text\<close> is a response with
  its status and the result of \<open>response.text()\<close> (\<open>None\<close> when reading the body
  rejects). Otherwise the call throws: \<open>JsError name message\<close> is an instance of
  \<open>Error\<close>, \<open>NotAnError\<close> any other thrown value.
\<close>

datatype thrown = JsError string string | NotAnError

datatype outcome = Response int "string option" | Throws thrown

text \<open>\<open>Response.ok\<close> of the Fetch standard: the status is in the range 200 to 299.\<close>

definition response_ok :: "int \<Rightarrow> bool" where
  "response_ok st = (200 \<le> st \<and> st \<le> 299)"

text \<open>
  The effects of a delivery, in program order. \<open>Fetch url headers body signal\<close> is one
  POST; \<open>signal\<close> is \<open>Some ms\<close> when the call is given the signal of an
  \<open>AbortController\<close> that a timer aborts after \<open>ms\<close> milliseconds, and \<open>None\<close> when
  no signal is passed. \<open>Sleep ms\<close> is one \<open>await sleep(ms)\<close>.
\<close>

datatype 'b effect = Fetch string headers 'b "int option" | Sleep rat

text \<open>
  One pass through the \<open>try\<close>/\<open>catch\<close> of an attempt either returns from the
  function or falls through to the backoff with the loop variables it has set.
\<close>

datatype ('r, 's) step = Return 'r | Next 's

section \<open>Result and option types\<close>

text \<open>
  \<open>{ success; error? }\<close> is what the single-shot sender returns, \<open>WebhookResult\<close>
  adds \<open>attempts\<close>, \<open>RelayResult\<close> adds \<open>statusCode?\<close>. \<open>RetryOptions\<close> and
  \<open>RelayOptions\<close> are related in the same way.
\<close>

record SendResult =
  success :: bool
  error :: "string option"

record WebhookResult = SendResult +
  attempts :: int

record RelayResult = WebhookResult +
  statusCode :: "int option"

record RetryOptions =
  maxAttempts :: "int option"
  baseDelayMs :: "rat option"

record RelayOptions = RetryOptions +
  timeoutMs :: "int option"

section \<open>webhook-relay: relay.ts\<close>

definition shouldRetry :: "int \<Rightarrow> bool" where
  "shouldRetry st = (st = 429 \<or> st \<ge> 500)"

text \<open>Lines 163 to 168 of \<open>sendRelayRequest\<close>; the same lines close every retrying sender.\<close>

definition backoff :: "rat \<Rightarrow> int \<Rightarrow> int \<Rightarrow> 'b effect list" where
  "backoff baseDelay maxAtt attempt =
     (if attempt < maxAtt then
        (let delay = baseDelay * 2 powi (attempt - 2)
         in if delay > 0 then [Sleep delay] else [])
      else [])"

text \<open>The \<open>try\<close>/\<open>catch\<close> of one attempt of \<open>sendRelayRequest\<close>, lines 122 to 161.\<close>

definition relay_try ::
  "int \<Rightarrow> int \<Rightarrow> int option \<Rightarrow> outcome \<Rightarrow> (RelayResult, string \<times> int option) step" where
  "relay_try timeout attempt lastStatusCode oc =
     (case oc of
        Response st txt \<Rightarrow>
          if response_ok st then
            Return \<lparr>success = True, error = None, attempts = attempt, statusCode = Some st\<rparr>
          else
            (let lastError = ''HTTP '' @ toString st @ '': '' @ nullish txt ''Unknown error''
             in if \<not> shouldRetry st then
                  Return \<lparr>success = False, error = Some lastError, attempts = attempt,
                          statusCode = Some st\<rparr>
                else Next (lastError, Some st))
      | Throws err \<Rightarrow>
          (case err of
             JsError nm msg \<Rightarrow>
               if nm = ''AbortError'' then
                 Next (''Request timeout ('' @ toString timeout @ ''ms)'', lastStatusCode)
               else Next (msg, lastStatusCode)
           | NotAnError \<Rightarrow> Next (''Unknown error'', lastStatusCode)))"

text \<open>
  The \<open>for\<close> loop of \<open>sendRelayRequest\<close>, with its variables \<open>attempt\<close>, \<open>lastError\<close>
  and \<open>lastStatusCode\<close> as arguments. \<open>net attempt\<close> is the outcome of the fetch of
  that attempt.
\<close>

function relay_loop ::
  "int \<Rightarrow> rat \<Rightarrow> int \<Rightarrow> string \<Rightarrow> 'b \<Rightarrow> headers \<Rightarrow> (int \<Rightarrow> outcome) \<Rightarrow>
   int \<Rightarrow> string \<Rightarrow> int option \<Rightarrow> RelayResult \<times> 'b effect list" where
  "relay_loop maxAtt baseDelay timeout url body hdrs net attempt lastError lastStatusCode =
     (if attempt \<le> maxAtt then
        (case relay_try timeout attempt lastStatusCode (net attempt) of
           Return r \<Rightarrow> (r, [Fetch url hdrs body (Some timeout)])
         | Next (lastError', lastStatusCode') \<Rightarrow>
             apsnd (\<lambda>evs. Fetch url hdrs body (Some timeout) # backoff baseDelay maxAtt attempt @ evs)
               (relay_loop maxAtt baseDelay timeout url body hdrs net (attempt + 1)
                  lastError' lastStatusCode'))
      else
        (\<lparr>success = False, error = Some lastError, attempts = maxAtt,
          statusCode = lastStatusCode\<rparr>, []))"
  by pat_completeness auto
termination
  by (relation "measure (\<lambda>(maxAtt, baseDelay, timeout, url, body, hdrs, net, attempt, lastError,
        lastStatusCode). nat (maxAtt + 1 - attempt))") auto

declare relay_loop.simps [simp del]

definition sendRelayRequest ::
  "string \<Rightarrow> 'b \<Rightarrow> headers \<Rightarrow> RelayOptions option \<Rightarrow> (int \<Rightarrow> outcome) \<Rightarrow>
   RelayResult \<times> 'b effect list" where
  "sendRelayRequest url body hdrs options net =
     (let maxAtt = nullish (Option.bind options maxAttempts) 3;
          baseDelay = nullish (Option.bind options baseDelayMs) 1000;
          timeout = nullish (Option.bind options timeoutMs) 30000
      in relay_loop maxAtt baseDelay timeout url body hdrs net 1 [] None)"

section \<open>The Discord integrations: discord.ts\<close>

text \<open>
  \<open>sendDiscordWebhook\<close> with retry. The function is the same, comments apart, in
  \<open>src/discord.ts\<close>, \<open>discord-chat-bridge/src/discord.ts\<close>,
  \<open>discord-server-status/src/discord.ts\<close> and in the player-activity sender that follows
  \<open>sendRelayRequest\<close> in \<open>webhook-relay/src/relay.ts\<close>. It passes no signal to \<open>fetch\<close>.
\<close>

definition discord_try :: "int \<Rightarrow> outcome \<Rightarrow> (WebhookResult, string) step" where
  "discord_try attempt oc =
     (case oc of
        Response st txt \<Rightarrow>
          if response_ok st then
            Return \<lparr>success = True, error = None, attempts = attempt\<rparr>
          else
            (let lastError = ''HTTP '' @ toString st @ '': '' @ nullish txt ''Unknown error''
             in if \<not> shouldRetry st then
                  Return \<lparr>success = False, error = Some lastError, attempts = attempt\<rparr>
                else Next lastError)
      | Throws err \<Rightarrow>
          (case err of
             JsError nm msg \<Rightarrow> Next msg
           | NotAnError \<Rightarrow> Next ''Unknown error''))"

function discord_loop ::
  "int \<Rightarrow> rat \<Rightarrow> string \<Rightarrow> 'b \<Rightarrow> (int \<Rightarrow> outcome) \<Rightarrow> int \<Rightarrow> string \<Rightarrow>
   WebhookResult \<times> 'b effect list" where
  "discord_loop maxAtt baseDelay url payload net attempt lastError =
     (if attempt \<le> maxAtt then
        (case discord_try attempt (net attempt) of
           Return r \<Rightarrow> (r, [Fetch url [(''Content-Type'', ''application/json'')] payload None])
         | Next lastError' \<Rightarrow>
             apsnd (\<lambda>evs. Fetch url [(''Content-Type'', ''application/json'')] payload None
                            # backoff baseDelay maxAtt attempt @ evs)
               (discord_loop maxAtt baseDelay url payload net (attempt + 1) lastError'))
      else
        (\<lparr>success = False, error = Some lastError, attempts = maxAtt\<rparr>, []))"
  by pat_completeness auto
termination
  by (relation "measure (\<lambda>(maxAtt, baseDelay, url, payload, net, attempt, lastError).
        nat (maxAtt + 1 - attempt))") auto

declare discord_loop.simps [simp del]

definition sendDiscordWebhook ::
  "string \<Rightarrow> 'b \<Rightarrow> RetryOptions option \<Rightarrow> (int \<Rightarrow> outcome) \<Rightarrow>
   WebhookResult \<times> 'b effect list" where
  "sendDiscordWebhook url payload options net =
     (let maxAtt = nullish (Option.bind options maxAttempts) 3;
          baseDelay = nullish (Option.bind options baseDelayMs) 1000
      in discord_loop maxAtt baseDelay url payload net 1 [])"

text \<open>
  \<open>sendDiscordWebhook\<close> of \<open>src/unnamed/part_003\<close> (the moderation embeds): one
  \<open>fetch\<close>, no options, and a result without \<open>attempts\<close>.
\<close>

definition sendDiscordWebhook_oneshot ::
  "string \<Rightarrow> 'b \<Rightarrow> (int \<Rightarrow> outcome) \<Rightarrow> SendResult \<times> 'b effect list" where
  "sendDiscordWebhook_oneshot url payload net =
     ((case net 1 of
         Response st txt \<Rightarrow>
           if \<not> response_ok st then
             \<lparr>success = False,
              error = Some (''HTTP '' @ toString st @ '': '' @ nullish txt ''Unknown error'')\<rparr>
           else \<lparr>success = True, error = None\<rparr>
       | Throws err \<Rightarrow>
           (case err of
              JsError nm msg \<Rightarrow> \<lparr>success = False, error = Some msg\<rparr>
            | NotAnError \<Rightarrow> \<lparr>success = False, error = Some ''Unknown error''\<rparr>)),
      [Fetch url [(''Content-Type'', ''application/json'')] payload None])"

section \<open>webhook-relay: patterns, headers and payload\<close>

text \<open>
  \<open>matchesPattern\<close> belongs to the integration SDK, which is not among the sources; the
  functions that call it take it as an argument.
\<close>

definition matchesEventPatterns ::
  "(string \<Rightarrow> string \<Rightarrow> bool) \<Rightarrow> string \<Rightarrow> string list option \<Rightarrow> bool" where
  "matchesEventPatterns matchesPattern ev patterns =
     (case patterns of
        None \<Rightarrow> True
      | Some ps \<Rightarrow> if length ps = 0 then True else list_ex (\<lambda>pattern. matchesPattern ev pattern) ps)"

text \<open>
  Modelled from the spec: \<open>matchesPattern\<close> of the integration SDK, which is missing
  from the sources. A pattern that ends in \<open>*\<close> matches every event that starts with
  the text before the \<open>*\<close>; a pattern without wildcard matches only itself.
\<close>

definition matchesPattern_spec :: "string \<Rightarrow> string \<Rightarrow> bool" where
  "matchesPattern_spec ev pattern =
     (if pattern \<noteq> [] \<and> last pattern = CHR ''*'' then prefix (butlast pattern) ev
      else ev = pattern)"

text \<open>
  \<open>String.prototype.toLowerCase\<close> on the letters \<open>A\<close> to \<open>Z\<close>; every other
  character of the 8-bit \<open>char\<close> type is left as it is.
\<close>

definition toLowerCase :: "string \<Rightarrow> string" where
  "toLowerCase s =
     map (\<lambda>c. case map_of (zip ''ABCDEFGHIJKLMNOPQRSTUVWXYZ'' ''abcdefghijklmnopqrstuvwxyz'') c of
                Some lower \<Rightarrow> lower
              | None \<Rightarrow> c) s"

definition startsWith :: "string \<Rightarrow> string \<Rightarrow> bool" where
  "startsWith s p = prefix p s"

record IntegrationConfig =
  targetUrl :: "string option"
  eventPatterns :: "string list option"
  customHeaders :: "headers option"
  includeOriginalHeaders :: "bool option"
  transformPayload_opt :: "bool option"
  maxRetries :: "int option"
  retryDelayMs :: "rat option"
  timeoutMs_opt :: "int option"
  secretHeader :: "string option"
  secretValue :: "string option"

text \<open>
  \<open>targetUrl\<close> is declared \<open>string\<close>, but the configuration comes from a manifest and
  the handler tests \<open>!url\<close>, so the field may be missing. \<open>transformPayload_opt\<close> and
  \<open>timeoutMs_opt\<close> are the fields \<open>transformPayload\<close> and \<open>timeoutMs\<close>.
\<close>

definition buildRelayHeaders :: "headers \<Rightarrow> IntegrationConfig \<Rightarrow> headers" where
  "buildRelayHeaders originalHeaders cfg =
     (let hs0 = [(''Content-Type'', ''application/json'')];
          hs1 = (if nullish (includeOriginalHeaders cfg) True then
                   fold (\<lambda>(key, val) hs.
                           if startsWith (toLowerCase key) ''x-sentinel-''
                           then assign key val hs else hs)
                     originalHeaders hs0
                 else hs0);
          hs2 = (case customHeaders cfg of
                   Some custom \<Rightarrow> fold (\<lambda>(key, val) hs. assign key val hs) custom hs1
                 | None \<Rightarrow> hs1)
      in (case (secretHeader cfg, secretValue cfg) of
            (Some sh, Some sv) \<Rightarrow> if sh \<noteq> [] \<and> sv \<noteq> [] then assign sh sv hs2 else hs2
          | _ \<Rightarrow> hs2))"

record 'd WebhookPayload =
  event :: string
  timestamp :: string
  organizationId :: string
  userId :: "string option"
  data :: 'd

text \<open>\<open>PayloadEnvelope\<close>: the fields of the payload and the constant \<open>source\<close>.\<close>

record 'd PayloadEnvelope = "'d WebhookPayload" +
  source :: string

definition transformPayload ::
  "'d WebhookPayload \<Rightarrow> bool \<Rightarrow> 'd WebhookPayload + 'd PayloadEnvelope" where
  "transformPayload payload transform =
     (if \<not> transform then Inl payload
      else Inr \<lparr>event = event payload, timestamp = timestamp payload,
                organizationId = organizationId payload, userId = userId payload,
                data = data payload, source = ''sentinel''\<rparr>)"

section \<open>The inbound handlers\<close>

record WebhookResponse =
  ok :: bool
  message :: string

text \<open>
  Modelled from the spec: \<open>successResponse\<close> and \<open>errorResponse\<close> of the integration
  SDK, which is missing from the sources. A \<open>WebhookResponse\<close> is \<open>{ok, message}\<close>; a
  success has \<open>ok = true\<close>, an error has \<open>ok = false\<close>.
\<close>

definition successResponse :: "string \<Rightarrow> WebhookResponse" where
  "successResponse msg = \<lparr>ok = True, message = msg\<rparr>"

definition errorResponse :: "string \<Rightarrow> WebhookResponse" where
  "errorResponse msg = \<lparr>ok = False, message = msg\<rparr>"

record 'c HandlerContext =
  config :: 'c
  webhookSecret :: "string option"

text \<open>What \<open>handleWebhook\<close> throws: \<open>JSON.parse\<close> rejects the raw body.\<close>

datatype fault = SyntaxError

text \<open>
  The block \<open>if (ctx.webhookSecret) { ... }\<close> that opens \<open>handleWebhook\<close> in every
  integration (lines 48 to 57 of \<open>part_001\<close>, 118 to 126 of \<open>part_000\<close>, 148 to 157 of
  \<open>part_002\<close>, 132 to 140 of \<open>src/handler.ts\<close>, 77 to 85 of the chat bridge). The result
  is the response the handler returns at once, or \<open>None\<close> when it goes on.
  \<open>verifyWebhookSignature\<close> belongs to the SDK and is an argument.
\<close>

definition signatureCheck ::
  "(string \<Rightarrow> string \<Rightarrow> string \<Rightarrow> bool) \<Rightarrow> string option \<Rightarrow> string \<Rightarrow> headers \<Rightarrow>
   WebhookResponse option" where
  "signatureCheck verifyWebhookSignature secret rawBody hdrs =
     (case secret of
        None \<Rightarrow> None
      | Some sec \<Rightarrow>
          if sec = [] then None
          else
            (case map_of hdrs ''x-sentinel-signature'' of
               None \<Rightarrow> Some (errorResponse ''Missing signature header'')
             | Some signature \<Rightarrow>
                 if signature = [] then Some (errorResponse ''Missing signature header'')
                 else if \<not> verifyWebhookSignature rawBody signature sec
                 then Some (errorResponse ''Invalid signature'')
                 else None))"

text \<open>\<open>formatSuccessMessage\<close> and \<open>formatErrorMessage\<close> of the relay handler, \<open>part_001\<close>.\<close>

definition formatSuccessMessage :: "RelayResult \<Rightarrow> string" where
  "formatSuccessMessage result =
     (let base = ''Relayed to '' @
            (case statusCode result of
               Some code \<Rightarrow> if code \<noteq> 0 then ''('' @ toString code @ '')'' else ''target''
             | None \<Rightarrow> ''target'')
      in if attempts result > 1 then base @ '' ('' @ toString (attempts result) @ '' attempts)''
         else base)"

definition formatErrorMessage :: "RelayResult \<Rightarrow> string" where
  "formatErrorMessage result =
     ''Relay failed after '' @ toString (attempts result) @ '' attempt'' @
     (if attempts result \<noteq> 1 then ''s'' else []) @ '': '' @ nullish (error result) ''undefined''"

text \<open>
  \<open>handleWebhook\<close> of the relay, \<open>part_001\<close>. \<open>JSON_parse rawBody\<close> is \<open>None\<close> when
  \<open>JSON.parse\<close> throws, and the cast to \<open>WebhookPayload\<close> is taken to hold otherwise.
  The second component lists the outbound effects. \<open>target url headers body\<close> is what
  the remote endpoint does with a request: the outcomes of the attempts that send this
  url, these headers and this body. Within one delivery every attempt sends the same
  request, so \<open>sendRelayRequest\<close> sees them as a function of the attempt.
\<close>

definition handleWebhook_relay ::
  "(string \<Rightarrow> string \<Rightarrow> string \<Rightarrow> bool) \<Rightarrow> (string \<Rightarrow> 'd WebhookPayload option) \<Rightarrow>
   (string \<Rightarrow> string \<Rightarrow> bool) \<Rightarrow> IntegrationConfig HandlerContext \<Rightarrow>
   (string \<Rightarrow> headers \<Rightarrow> ('d WebhookPayload + 'd PayloadEnvelope) \<Rightarrow> int \<Rightarrow> outcome) \<Rightarrow>
   string \<Rightarrow> headers \<Rightarrow>
   (fault + WebhookResponse) \<times> ('d WebhookPayload + 'd PayloadEnvelope) effect list" where
  "handleWebhook_relay verifyWebhookSignature JSON_parse matchesPattern ctx target rawBody hdrs =
     (case signatureCheck verifyWebhookSignature (webhookSecret ctx) rawBody hdrs of
        Some rejection \<Rightarrow> (Inr rejection, [])
      | None \<Rightarrow>
          (case JSON_parse rawBody of
             None \<Rightarrow> (Inl SyntaxError, [])
           | Some payload \<Rightarrow>
               (let url = targetUrl (config ctx) in
                if \<not> truthy url then
                  (Inr (successResponse ''Target URL not configured, skipping''), [])
                else if \<not> matchesEventPatterns matchesPattern (event payload)
                            (eventPatterns (config ctx)) then
                  (Inr (successResponse (''Event '' @ [CHR 0x27] @ event payload @ [CHR 0x27] @
                          '' does not match patterns, skipping'')), [])
                else
                  (let relayHeaders = buildRelayHeaders hdrs (config ctx);
                       relayBody = transformPayload payload
                                     (nullish (transformPayload_opt (config ctx)) False);
                       sent = sendRelayRequest (nullish url []) relayBody relayHeaders
                                (Some \<lparr>maxAttempts = Some (nullish (maxRetries (config ctx)) 3),
                                       baseDelayMs = Some (nullish (retryDelayMs (config ctx)) 1000),
                                       timeoutMs = Some (nullish (timeoutMs_opt (config ctx)) 30000)\<rparr>)
                                (target (nullish url []) relayHeaders relayBody)
                   in (Inr (if \<not> success (fst sent) then errorResponse (formatErrorMessage (fst sent))
                            else successResponse (formatSuccessMessage (fst sent))),
                       snd sent)))))"

text \<open>
  \<open>handleWebhook\<close> of the Discord integrations (\<open>part_000\<close>, \<open>part_002\<close>,
  \<open>src/handler.ts\<close>, the chat bridge): the signature block, \<open>JSON.parse\<close>, then the
  router. The router is built by \<open>createWebhookRouter\<close> of the SDK from handlers that
  close over \<open>ctx.config\<close>; it is an argument, and returns the response with the
  outbound effects of the handler it ran.
\<close>

definition handleWebhook_discord ::
  "(string \<Rightarrow> string \<Rightarrow> string \<Rightarrow> bool) \<Rightarrow> (string \<Rightarrow> 'd WebhookPayload option) \<Rightarrow>
   ('d WebhookPayload \<Rightarrow> (fault + WebhookResponse) \<times> 'e list) \<Rightarrow> 'c HandlerContext \<Rightarrow>
   string \<Rightarrow> headers \<Rightarrow> (fault + WebhookResponse) \<times> 'e list" where
  "handleWebhook_discord verifyWebhookSignature JSON_parse router ctx rawBody hdrs =
     (case signatureCheck verifyWebhookSignature (webhookSecret ctx) rawBody hdrs of
        Some rejection \<Rightarrow> (Inr rejection, [])
      | None \<Rightarrow>
          (case JSON_parse rawBody of
             None \<Rightarrow> (Inl SyntaxError, [])
           | Some payload \<Rightarrow> router payload))"

section \<open>Observations on deliveries\<close>

text \<open>The delays of the waits of a delivery, in order.\<close>

fun sleeps :: "'b effect list \<Rightarrow> rat list" where
  "sleeps [] = []"
| "sleeps (Fetch u h b s # es) = sleeps es"
| "sleeps (Sleep d # es) = d # sleeps es"

text \<open>The number of requests of a delivery.\<close>

fun fetches :: "'b effect list \<Rightarrow> nat" where
  "fetches [] = 0"
| "fetches (Fetch u h b s # es) = Suc (fetches es)"
| "fetches (Sleep d # es) = fetches es"

text \<open>The network that gives every attempt the same outcome.\<close>

definition every_attempt :: "outcome \<Rightarrow> int \<Rightarrow> outcome" where
  "every_attempt oc = (\<lambda>attempt. oc)"

text \<open>
  An attempt fails retryably when its response is not a success and \<open>shouldRetry\<close>
  accepts the status, or when \<open>fetch\<close> throws.
\<close>

definition retryable_failure :: "outcome \<Rightarrow> bool" where
  "retryable_failure oc =
     (case oc of
        Response st txt \<Rightarrow> \<not> response_ok st \<and> shouldRetry st
      | Throws err \<Rightarrow> True)"

text \<open>An attempt that the abort timer cut short: \<open>fetch\<close> throws an \<open>AbortError\<close>.\<close>

definition timed_out :: "outcome \<Rightarrow> bool" where
  "timed_out oc =
     (case oc of
        Response st txt \<Rightarrow> False
      | Throws err \<Rightarrow> (case err of JsError nm msg \<Rightarrow> nm = ''AbortError'' | NotAnError \<Rightarrow> False))"

text \<open>
  The wait after attempt \<open>n\<close> in the words of the specification: the delay is
  \<open>baseDelayMs * 2^(n-2)\<close>, and a delay that is not positive is skipped.
\<close>

definition inter_attempt_wait :: "rat \<Rightarrow> int \<Rightarrow> 'b effect list" where
  "inter_attempt_wait baseDelay n =
     (if 0 < baseDelay * 2 powi (n - 2) then [Sleep (baseDelay * 2 powi (n - 2))] else [])"

text \<open>The effects of \<open>n\<close> failed attempts with request \<open>req\<close>, each followed by its wait.\<close>

definition failed_attempts :: "'b effect \<Rightarrow> rat \<Rightarrow> int \<Rightarrow> 'b effect list" where
  "failed_attempts req baseDelay n = concat (map (\<lambda>j. req # inter_attempt_wait baseDelay j) [1..n])"

text \<open>The error text of a response that is not a success.\<close>

definition http_error :: "int \<Rightarrow> string option \<Rightarrow> string" where
  "http_error st txt =
     ''HTTP '' @ toString st @ '': '' @ (case txt of Some t \<Rightarrow> t | None \<Rightarrow> ''Unknown error'')"

text \<open>The error that a failed attempt leaves behind, in the relay and in the Discord senders.\<close>

definition relay_error :: "int \<Rightarrow> outcome \<Rightarrow> string" where
  "relay_error timeout oc =
     (case oc of
        Response st txt \<Rightarrow> http_error st txt
      | Throws err \<Rightarrow>
          (case err of
             JsError nm msg \<Rightarrow>
               if nm = ''AbortError'' then ''Request timeout ('' @ toString timeout @ ''ms)'' else msg
           | NotAnError \<Rightarrow> ''Unknown error''))"

definition discord_error :: "outcome \<Rightarrow> string" where
  "discord_error oc =
     (case oc of
        Response st txt \<Rightarrow> http_error st txt
      | Throws err \<Rightarrow> (case err of JsError nm msg \<Rightarrow> msg | NotAnError \<Rightarrow> ''Unknown error''))"

text \<open>The status of the last response among the outcomes, if there was a response.\<close>

definition last_status :: "outcome list \<Rightarrow> int option" where
  "last_status ocs =
     fold (\<lambda>oc acc. case oc of Response st txt \<Rightarrow> Some st | Throws err \<Rightarrow> acc) ocs None"

text \<open>
  The options a sender works with: \<open>options?.maxAttempts ?? 3\<close>,
  \<open>options?.baseDelayMs ?? 1000\<close> and \<open>options?.timeoutMs ?? 30000\<close>.
\<close>

definition max_attempts_of :: "'a RetryOptions_scheme option \<Rightarrow> int" where
  "max_attempts_of options = nullish (Option.bind options maxAttempts) 3"

definition base_delay_of :: "'a RetryOptions_scheme option \<Rightarrow> rat" where
  "base_delay_of options = nullish (Option.bind options baseDelayMs) 1000"

definition timeout_of :: "'a RelayOptions_scheme option \<Rightarrow> int" where
  "timeout_of options = nullish (Option.bind options timeoutMs) 30000"

text \<open>The request that every attempt of a Discord sender issues.\<close>

definition discord_request :: "string \<Rightarrow> 'b \<Rightarrow> 'b effect" where
  "discord_request url payload = Fetch url [(''Content-Type'', ''application/json'')] payload None"

text \<open>
  The shape of a delivery in time: \<open>None\<close> for a request, \<open>Some d\<close> for a wait of
  \<open>d\<close> milliseconds.
\<close>

definition timeline :: "'b effect list \<Rightarrow> rat option list" where
  "timeline evs = map (\<lambda>e. case e of Fetch u h b s \<Rightarrow> None | Sleep d \<Rightarrow> Some d) evs"

text \<open>
  The outcomes of the attempts of the delivery that the relay handler makes for a
  payload and inbound headers: what the target does with the request built from them.
\<close>

definition relay_outcomes ::
  "IntegrationConfig HandlerContext \<Rightarrow>
   (string \<Rightarrow> headers \<Rightarrow> ('d WebhookPayload + 'd PayloadEnvelope) \<Rightarrow> int \<Rightarrow> outcome) \<Rightarrow>
   'd WebhookPayload \<Rightarrow> headers \<Rightarrow> int \<Rightarrow> outcome" where
  "relay_outcomes ctx target payload hdrs =
     target (nullish (targetUrl (config ctx)) []) (buildRelayHeaders hdrs (config ctx))
       (transformPayload payload (nullish (transformPayload_opt (config ctx)) False))"

text \<open>
  Stand-ins for the arguments of the handlers in concrete runs: a verifier that accepts
  no signature, a \<open>JSON.parse\<close> that yields a given payload, a router that answers every
  payload with a given result, a relay configuration with a target and patterns and
  every other field absent, a target whose outcomes do not depend on the request, and
  a target that accepts a request only when its \<open>x-sentinel-signature\<close> header has the
  value it expects.
\<close>

definition replies :: "(int \<Rightarrow> outcome) \<Rightarrow> string \<Rightarrow> headers \<Rightarrow> 'b \<Rightarrow> int \<Rightarrow> outcome" where
  "replies net url hdrs body = net"

definition signature_checking_target ::
  "string \<Rightarrow> string \<Rightarrow> headers \<Rightarrow> 'b \<Rightarrow> int \<Rightarrow> outcome" where
  "signature_checking_target expected url hdrs body attempt =
     (if map_of hdrs ''x-sentinel-signature'' = Some expected then Response 200 None
      else Response 401 (Some ''Unauthorized''))"

definition accepts_nothing :: "string \<Rightarrow> string \<Rightarrow> string \<Rightarrow> bool" where
  "accepts_nothing rawBody signature secret = False"

definition parses_to :: "'d WebhookPayload \<Rightarrow> string \<Rightarrow> 'd WebhookPayload option" where
  "parses_to payload rawBody = Some payload"

definition answers :: "'r \<Rightarrow> 'd WebhookPayload \<Rightarrow> 'r" where
  "answers result payload = result"

definition relay_config :: "string option \<Rightarrow> string list option \<Rightarrow> IntegrationConfig" where
  "relay_config url patterns =
     \<lparr>targetUrl = url, eventPatterns = patterns, customHeaders = None,
      includeOriginalHeaders = None, transformPayload_opt = None, maxRetries = None,
      retryDelayMs = None, timeoutMs_opt = None, secretHeader = None, secretValue = None\<rparr>"

definition player_connected :: "unit WebhookPayload" where
  "player_connected =
     \<lparr>event = ''player.connected'', timestamp = ''2024-01-01T00:00:00.000Z'',
      organizationId = ''org_1'', userId = None, data = ()\<rparr>"

section \<open>Properties of the retry algorithm\<close>

lemma apsnd_ident: "apsnd (\<lambda>evs. evs) p = p"
  by (cases p) simp

lemma relay_try_failure:
  "retryable_failure oc \<Longrightarrow>
   relay_try T a ls oc =
     Next (relay_error T oc, case oc of Response st txt \<Rightarrow> Some st | Throws err \<Rightarrow> ls)"
  by (auto simp: retryable_failure_def relay_try_def relay_error_def http_error_def nullish_def
           split: outcome.splits thrown.splits option.splits)

lemma relay_loop_failures:
  assumes "0 \<le> n" and "n \<le> M" and "\<forall>j\<in>{1..n}. retryable_failure (net j)"
  shows "relay_loop M B T u b h net 1 [] None =
         apsnd (\<lambda>evs. concat (map (\<lambda>j. Fetch u h b (Some T) # backoff B M j) [1..n]) @ evs)
           (relay_loop M B T u b h net (n + 1)
              (if n = 0 then [] else relay_error T (net n))
              (last_status (map net [1..n])))"
  using assms
proof (induction n rule: int_ge_induct)
  case base
  show ?case by (simp add: last_status_def apsnd_ident)
next
  case (step i)
  have rf: "retryable_failure (net (i + 1))" using step.prems step.hyps by simp
  have up: "[1..i + 1] = [1..i] @ [i + 1]" using step.hyps by (simp add: upto_rec2)
  have IH: "relay_loop M B T u b h net 1 [] None =
         apsnd (\<lambda>evs. concat (map (\<lambda>j. Fetch u h b (Some T) # backoff B M j) [1..i]) @ evs)
           (relay_loop M B T u b h net (i + 1)
              (if i = 0 then [] else relay_error T (net i))
              (last_status (map net [1..i])))"
    using step by simp
  have nxt: "relay_loop M B T u b h net (i + 1) le ls =
        apsnd (\<lambda>evs. Fetch u h b (Some T) # backoff B M (i + 1) @ evs)
          (relay_loop M B T u b h net (i + 1 + 1) (relay_error T (net (i + 1)))
             (case net (i + 1) of Response st txt \<Rightarrow> Some st | Throws err \<Rightarrow> ls))" for le ls
    using step.prems(1) by (subst relay_loop.simps) (simp add: relay_try_failure [OF rf])
  have ls: "last_status (map net [1..i] @ [net (i + 1)]) =
        (case net (i + 1) of Response st txt \<Rightarrow> Some st | Throws err \<Rightarrow> last_status (map net [1..i]))"
    by (simp add: last_status_def split: outcome.splits)
  show ?case
    using step.hyps by (simp add: IH nxt ls up apsnd_def map_prod_def split_beta)
qed


lemma backoff_before_last: "j < M \<Longrightarrow> backoff B M j = inter_attempt_wait B j"
  by (simp add: backoff_def inter_attempt_wait_def Let_def)

lemma backoff_at_last: "\<not> j < M \<Longrightarrow> backoff B M j = []"
  by (simp add: backoff_def)

lemma backoff_run:
  "n < M \<Longrightarrow> concat (map (\<lambda>j. req # backoff B M j) [1..n]) = failed_attempts req B n"
proof -
  assume "n < M"
  then have "map (\<lambda>j. req # backoff B M j) [1..n] = map (\<lambda>j. req # inter_attempt_wait B j) [1..n]"
    by (intro map_cong) (auto simp: backoff_before_last)
  then show ?thesis by (simp only: failed_attempts_def)
qed

lemma backoff_run_last:
  assumes "1 \<le> n"
  shows "concat (map (\<lambda>j. req # backoff B n j) [1..n]) = failed_attempts req B (n - 1) @ [req]"
proof -
  have "[1..n] = [1..n - 1] @ [n]" using assms by (simp add: upto_rec2)
  then show ?thesis
    by (simp add: backoff_at_last backoff_run)
qed

lemma relay_loop_first_effect:
  "a \<le> M \<Longrightarrow> \<exists>rest. snd (relay_loop M B T u b h net a le ls) = Fetch u h b (Some T) # rest"
  by (subst relay_loop.simps) (simp split: step.splits)

lemma relay_loop_exhausted:
  "M < a \<Longrightarrow> relay_loop M B T u b h net a le ls =
     (\<lparr>success = False, error = Some le, attempts = M, statusCode = ls\<rparr>, [])"
  by (subst relay_loop.simps) simp

lemma relay_options:
  "sendRelayRequest url body hs opts net =
     relay_loop (max_attempts_of opts) (base_delay_of opts) (timeout_of opts) url body hs net 1 [] None"
  by (simp add: sendRelayRequest_def max_attempts_of_def base_delay_of_def timeout_of_def)

lemma discord_try_failure:
  "retryable_failure oc \<Longrightarrow> discord_try a oc = Next (discord_error oc)"
  by (auto simp: retryable_failure_def discord_try_def discord_error_def http_error_def nullish_def
           split: outcome.splits thrown.splits option.splits)

lemma discord_loop_failures:
  assumes "0 \<le> n" and "n \<le> M" and "\<forall>j\<in>{1..n}. retryable_failure (net j)"
  shows "discord_loop M B u p net 1 [] =
         apsnd (\<lambda>evs. concat (map (\<lambda>j. discord_request u p # backoff B M j) [1..n]) @ evs)
           (discord_loop M B u p net (n + 1) (if n = 0 then [] else discord_error (net n)))"
  using assms
proof (induction n rule: int_ge_induct)
  case base
  show ?case by (simp add: apsnd_ident)
next
  case (step i)
  have rf: "retryable_failure (net (i + 1))" using step.prems step.hyps by simp
  have up: "[1..i + 1] = [1..i] @ [i + 1]" using step.hyps by (simp add: upto_rec2)
  have IH: "discord_loop M B u p net 1 [] =
         apsnd (\<lambda>evs. concat (map (\<lambda>j. discord_request u p # backoff B M j) [1..i]) @ evs)
           (discord_loop M B u p net (i + 1) (if i = 0 then [] else discord_error (net i)))"
    using step by simp
  have nxt: "discord_loop M B u p net (i + 1) le =
        apsnd (\<lambda>evs. discord_request u p # backoff B M (i + 1) @ evs)
          (discord_loop M B u p net (i + 1 + 1) (discord_error (net (i + 1))))" for le
    using step.prems(1)
    by (subst discord_loop.simps) (simp add: discord_try_failure [OF rf] discord_request_def)
  show ?case
    using step.hyps by (simp add: IH nxt up apsnd_def map_prod_def split_beta)
qed

lemma discord_loop_first_effect:
  "a \<le> M \<Longrightarrow> \<exists>rest. snd (discord_loop M B u p net a le) = discord_request u p # rest"
  by (subst discord_loop.simps) (simp add: discord_request_def split: step.splits)

lemma discord_loop_exhausted:
  "M < a \<Longrightarrow> discord_loop M B u p net a le =
     (\<lparr>success = False, error = Some le, attempts = M\<rparr>, [])"
  by (subst discord_loop.simps) simp

lemma discord_options:
  "sendDiscordWebhook url payload opts net =
     discord_loop (max_attempts_of opts) (base_delay_of opts) url payload net 1 []"
  by (simp add: sendDiscordWebhook_def max_attempts_of_def base_delay_of_def)

lemma sleeps_append: "sleeps (xs @ ys) = sleeps xs @ sleeps ys"
  by (induction xs rule: sleeps.induct) simp_all

lemma fetches_append: "fetches (xs @ ys) = fetches xs + fetches ys"
  by (induction xs rule: fetches.induct) simp_all

lemma sleeps_inter_attempt_wait:
  "sleeps (inter_attempt_wait B j) = filter (\<lambda>d. 0 < d) [B * 2 powi (j - 2)]"
  by (simp add: inter_attempt_wait_def)

lemma fetches_inter_attempt_wait: "fetches (inter_attempt_wait B j) = 0"
  by (simp add: inter_attempt_wait_def)

lemma sleeps_failed_attempts:
  "0 \<le> n \<Longrightarrow> sleeps (failed_attempts (Fetch u h b s) B n) =
     filter (\<lambda>d. 0 < d) (map (\<lambda>j. B * 2 powi (j - 2)) [1..n])"
proof (induction n rule: int_ge_induct)
  case base
  show ?case by (simp add: failed_attempts_def)
next
  case (step i)
  then have "[1..i + 1] = [1..i] @ [i + 1]" by (simp add: upto_rec2)
  with step show ?case
    by (simp add: failed_attempts_def sleeps_append sleeps_inter_attempt_wait)
qed

lemma fetches_failed_attempts:
  "0 \<le> n \<Longrightarrow> fetches (failed_attempts (Fetch u h b s) B n) = nat n"
proof (induction n rule: int_ge_induct)
  case base
  show ?case by (simp add: failed_attempts_def)
next
  case (step i)
  then have "[1..i + 1] = [1..i] @ [i + 1]" by (simp add: upto_rec2)
  with step show ?case
    by (simp add: failed_attempts_def fetches_append fetches_inter_attempt_wait nat_add_distrib)
qed

lemma delay_positive: "0 < B * 2 powi k \<longleftrightarrow> 0 < (B::rat)"
proof -
  have "0 < (2::rat) powi k" by (simp add: zero_less_power_int)
  then have "\<not> (2::rat) powi k < 0" by (simp add: not_less less_imp_le)
  then show ?thesis by (simp add: zero_less_mult_iff)
qed

lemma delays_all_positive:
  "0 < (B::rat) \<Longrightarrow> filter (\<lambda>d. 0 < d) (map (\<lambda>j. B * 2 powi (j - 2)) js) = map (\<lambda>j. B * 2 powi (j - 2)) js"
  by (induction js) (simp_all add: delay_positive)

lemma delays_none_positive:
  "(B::rat) \<le> 0 \<Longrightarrow> filter (\<lambda>d. 0 < d) (map (\<lambda>j. B * 2 powi (j - 2)) js) = []"
  by (induction js) (simp_all add: delay_positive)

lemma relay_exhaustion:
  assumes "1 \<le> N" and "max_attempts_of opts = N" and "\<forall>j\<in>{1..N}. retryable_failure (net j)"
  shows "sendRelayRequest url body hs opts net =
           (\<lparr>success = False, error = Some (relay_error (timeout_of opts) (net N)), attempts = N,
             statusCode = last_status (map net [1..N])\<rparr>,
            failed_attempts (Fetch url hs body (Some (timeout_of opts))) (base_delay_of opts) (N - 1)
              @ [Fetch url hs body (Some (timeout_of opts))])"
  using assms
  by (simp add: relay_options
        relay_loop_failures [of N N net "base_delay_of opts" "timeout_of opts" url body hs]
        relay_loop_exhausted backoff_run_last)

lemma discord_exhaustion:
  assumes "1 \<le> N" and "max_attempts_of opts = N" and "\<forall>j\<in>{1..N}. retryable_failure (net j)"
  shows "sendDiscordWebhook url payload opts net =
           (\<lparr>success = False, error = Some (discord_error (net N)), attempts = N\<rparr>,
            failed_attempts (discord_request url payload) (base_delay_of opts) (N - 1)
              @ [discord_request url payload])"
  using assms
  by (simp add: discord_options
        discord_loop_failures [of N N net "base_delay_of opts" url payload]
        discord_loop_exhausted backoff_run_last)

lemma relay_reaches:
  assumes "1 \<le> k" and "k \<le> max_attempts_of opts" and "\<forall>j\<in>{1..k - 1}. retryable_failure (net j)"
  shows "sendRelayRequest url body hs opts net =
         apsnd (\<lambda>evs. failed_attempts (Fetch url hs body (Some (timeout_of opts))) (base_delay_of opts)
                         (k - 1) @ evs)
           (relay_loop (max_attempts_of opts) (base_delay_of opts) (timeout_of opts) url body hs net k
              (if k - 1 = 0 then [] else relay_error (timeout_of opts) (net (k - 1)))
              (last_status (map net [1..k - 1])))"
  using assms
    relay_loop_failures [of "k - 1" "max_attempts_of opts" net "base_delay_of opts" "timeout_of opts"
      url body hs]
  by (simp add: relay_options backoff_run)

lemma discord_reaches:
  assumes "1 \<le> k" and "k \<le> max_attempts_of opts" and "\<forall>j\<in>{1..k - 1}. retryable_failure (net j)"
  shows "sendDiscordWebhook url payload opts net =
         apsnd (\<lambda>evs. failed_attempts (discord_request url payload) (base_delay_of opts) (k - 1) @ evs)
           (discord_loop (max_attempts_of opts) (base_delay_of opts) url payload net k
              (if k - 1 = 0 then [] else discord_error (net (k - 1))))"
  using assms
    discord_loop_failures [of "k - 1" "max_attempts_of opts" net "base_delay_of opts" url payload]
  by (simp add: discord_options backoff_run)

lemma relay_loop_success:
  "a \<le> M \<Longrightarrow> net a = Response st txt \<Longrightarrow> response_ok st \<Longrightarrow>
   relay_loop M B T u b h net a le ls =
     (\<lparr>success = True, error = None, attempts = a, statusCode = Some st\<rparr>, [Fetch u h b (Some T)])"
  by (subst relay_loop.simps) (simp add: relay_try_def)

lemma discord_loop_success:
  "a \<le> M \<Longrightarrow> net a = Response st txt \<Longrightarrow> response_ok st \<Longrightarrow>
   discord_loop M B u p net a le =
     (\<lparr>success = True, error = None, attempts = a\<rparr>, [discord_request u p])"
  by (subst discord_loop.simps) (simp add: discord_try_def discord_request_def)

lemma relay_loop_error_absent:
  "success (fst (relay_loop M B T u b h net a le ls)) \<Longrightarrow>
   error (fst (relay_loop M B T u b h net a le ls)) = None"
proof (induction M B T u b h net a le ls rule: relay_loop.induct)
  case (1 M B T u b h net a le ls)
  show ?case
  proof (cases "a \<le> M")
    case False
    with "1.prems" show ?thesis by (subst (asm) relay_loop.simps) simp
  next
    case True
    show ?thesis
    proof (cases "relay_try T a ls (net a)")
      case (Return r)
      then have "success r \<longrightarrow> error r = None"
        by (auto simp: relay_try_def Let_def split: outcome.splits thrown.splits if_splits)
      with True Return "1.prems" show ?thesis
        by (subst relay_loop.simps, subst (asm) relay_loop.simps) simp
    next
      case (Next st)
      obtain le' ls' where st: "st = (le', ls')" by (cases st)
      from True Next st "1.prems"
      have "success (fst (relay_loop M B T u b h net (a + 1) le' ls'))"
        by (subst (asm) relay_loop.simps) simp
      with "1.IH" [OF True Next [unfolded st] refl]
      have "error (fst (relay_loop M B T u b h net (a + 1) le' ls')) = None" by simp
      with True Next st show ?thesis by (subst relay_loop.simps) simp
    qed
  qed
qed

lemma relay_continues:
  assumes "1 \<le> n" and "n < max_attempts_of opts" and "\<forall>j\<in>{1..n}. retryable_failure (net j)"
  shows "prefix (failed_attempts (Fetch url hs body (Some (timeout_of opts))) (base_delay_of opts) n
                 @ [Fetch url hs body (Some (timeout_of opts))])
           (snd (sendRelayRequest url body hs opts net))"
proof -
  let ?M = "max_attempts_of opts" and ?B = "base_delay_of opts" and ?T = "timeout_of opts"
  obtain rest where rest:
    "snd (relay_loop ?M ?B ?T url body hs net (n + 1) (if n = 0 then [] else relay_error ?T (net n))
            (last_status (map net [1..n]))) = Fetch url hs body (Some ?T) # rest"
    using relay_loop_first_effect [of "n + 1" ?M] assms(2) by force
  have "snd (sendRelayRequest url body hs opts net) =
        failed_attempts (Fetch url hs body (Some ?T)) ?B n @ Fetch url hs body (Some ?T) # rest"
    using assms rest
    by (simp add: relay_options relay_loop_failures [of n ?M net ?B ?T url body hs] backoff_run)
  then show ?thesis by simp
qed

lemma relay_loop_reject:
  "a \<le> M \<Longrightarrow> net a = Response st txt \<Longrightarrow> \<not> response_ok st \<Longrightarrow> \<not> shouldRetry st \<Longrightarrow>
   relay_loop M B T u b h net a le ls =
     (\<lparr>success = False, error = Some (http_error st txt), attempts = a, statusCode = Some st\<rparr>,
      [Fetch u h b (Some T)])"
  by (subst relay_loop.simps) (simp add: relay_try_def http_error_def nullish_def split: option.splits)

lemma relay_loop_signals:
  "e \<in> set (snd (relay_loop M B T u b h net a le ls)) \<Longrightarrow>
   (case e of Fetch u' h' b' s \<Rightarrow> s = Some T | Sleep d \<Rightarrow> True)"
proof (induction M B T u b h net a le ls rule: relay_loop.induct)
  case (1 M B T u b h net a le ls)
  show ?case
  proof (cases "a \<le> M")
    case False
    with "1.prems" show ?thesis by (subst (asm) relay_loop.simps) simp
  next
    case True
    show ?thesis
    proof (cases "relay_try T a ls (net a)")
      case (Return r)
      with True "1.prems" show ?thesis by (subst (asm) relay_loop.simps) auto
    next
      case (Next st)
      obtain le' ls' where st: "st = (le', ls')" by (cases st)
      from True Next st "1.prems"
      have "e = Fetch u h b (Some T) \<or> e \<in> set (backoff B M a) \<or>
            e \<in> set (snd (relay_loop M B T u b h net (a + 1) le' ls'))"
        by (subst (asm) relay_loop.simps) (auto simp: apsnd_def map_prod_def split_beta)
      then show ?thesis
        using "1.IH" [OF True Next [unfolded st] refl]
        by (auto simp: backoff_def Let_def split: if_splits)
    qed
  qed
qed

lemma discord_continues:
  assumes "1 \<le> n" and "n < max_attempts_of opts" and "\<forall>j\<in>{1..n}. retryable_failure (net j)"
  shows "prefix (failed_attempts (discord_request url payload) (base_delay_of opts) n
                 @ [discord_request url payload])
           (snd (sendDiscordWebhook url payload opts net))"
proof -
  let ?M = "max_attempts_of opts" and ?B = "base_delay_of opts"
  obtain rest where rest:
    "snd (discord_loop ?M ?B url payload net (n + 1) (if n = 0 then [] else discord_error (net n)))
       = discord_request url payload # rest"
    using discord_loop_first_effect [of "n + 1" ?M] assms(2) by force
  have "snd (sendDiscordWebhook url payload opts net) =
        failed_attempts (discord_request url payload) ?B n @ discord_request url payload # rest"
    using assms rest
    by (simp add: discord_options discord_loop_failures [of n ?M net ?B url payload] backoff_run)
  then show ?thesis by simp
qed

lemma timeline_append: "timeline (xs @ ys) = timeline xs @ timeline ys"
  by (simp add: timeline_def)

lemma tries_agree:
  "(case relay_try T a ls oc of
      Return r \<Rightarrow> discord_try a oc = Return (WebhookResult.truncate r)
    | Next st \<Rightarrow> (\<exists>e. discord_try a oc = Next e \<and> (\<not> timed_out oc \<longrightarrow> e = fst st)))"
  by (auto simp: relay_try_def discord_try_def timed_out_def WebhookResult.truncate_def Let_def
           split: outcome.splits thrown.splits)

lemma senders_in_step:
  "nat (M + 1 - a) = n \<Longrightarrow>
   success (fst (relay_loop M B T u b h net a le ls)) = success (fst (discord_loop M B u' p net a le')) \<and>
   attempts (fst (relay_loop M B T u b h net a le ls)) = attempts (fst (discord_loop M B u' p net a le')) \<and>
   timeline (snd (relay_loop M B T u b h net a le ls)) = timeline (snd (discord_loop M B u' p net a le')) \<and>
   ((\<forall>j. \<not> timed_out (net j)) \<longrightarrow> le = le' \<longrightarrow>
      error (fst (relay_loop M B T u b h net a le ls)) = error (fst (discord_loop M B u' p net a le')))"
proof (induction n arbitrary: a le ls le')
  case 0
  then have "M < a" by simp
  then show ?case by (simp add: relay_loop_exhausted discord_loop_exhausted timeline_def)
next
  case (Suc n)
  then have le: "a \<le> M" and n: "nat (M + 1 - (a + 1)) = n" by simp_all
  note IH = Suc.IH [OF n]
  show ?case
  proof (cases "relay_try T a ls (net a)")
    case (Return r)
    with tries_agree [where T = T and a = a and ls = ls and oc = "net a"]
    have d: "discord_try a (net a) = Return (WebhookResult.truncate r)" by simp
    have r: "relay_loop M B T u b h net a x ls = (r, [Fetch u h b (Some T)])" for x
      using le Return by (subst relay_loop.simps) simp
    have d': "discord_loop M B u' p net a le' =
          (WebhookResult.truncate r, [Fetch u' [(''Content-Type'', ''application/json'')] p None])"
      using le d by (subst discord_loop.simps) simp
    show ?thesis
      by (simp add: r d' timeline_def WebhookResult.truncate_def)
  next
    case (Next st)
    obtain e s where st: "st = (e, s)" by (cases st)
    with Next tries_agree [where T = T and a = a and ls = ls and oc = "net a"]
    obtain e' where d: "discord_try a (net a) = Next e'" and e: "\<not> timed_out (net a) \<longrightarrow> e' = e"
      by auto
    have r: "relay_loop M B T u b h net a x ls =
          apsnd (\<lambda>evs. Fetch u h b (Some T) # backoff B M a @ evs)
            (relay_loop M B T u b h net (a + 1) e s)" for x
      using le Next st by (subst relay_loop.simps) simp
    have d': "discord_loop M B u' p net a le' =
          apsnd (\<lambda>evs. Fetch u' [(''Content-Type'', ''application/json'')] p None # backoff B M a @ evs)
            (discord_loop M B u' p net (a + 1) e')"
      using le d by (subst discord_loop.simps) simp
    have bo: "timeline (backoff B M a :: 'a effect list) = timeline (backoff B M a :: 'b effect list)"
      by (simp add: backoff_def timeline_def Let_def)
    show ?thesis
      using IH [of e s e'] e bo
      by (simp add: r d' timeline_append) (simp add: timeline_def)
  qed
qed


lemma oneshot_is_single_attempt:
  "sendDiscordWebhook_oneshot url payload net =
     (SendResult.truncate
        (fst (sendDiscordWebhook url payload (Some \<lparr>maxAttempts = Some 1, baseDelayMs = b\<rparr>) net)),
      snd (sendDiscordWebhook url payload (Some \<lparr>maxAttempts = Some 1, baseDelayMs = b\<rparr>) net))"
proof -
  have two: "discord_loop 1 B url payload net 2 le =
      (\<lparr>success = False, error = Some le, attempts = 1\<rparr>, [])" for B le
    by (simp add: discord_loop_exhausted)
  have one: "discord_loop 1 B url payload net 1 [] =
      (case discord_try 1 (net 1) of
         Return r \<Rightarrow> (r, [Fetch url [(''Content-Type'', ''application/json'')] payload None])
       | Next le \<Rightarrow> (\<lparr>success = False, error = Some le, attempts = 1\<rparr>,
                     [Fetch url [(''Content-Type'', ''application/json'')] payload None]))" for B
    by (subst discord_loop.simps) (simp add: two backoff_def split: step.splits)
  show ?thesis
    by (simp add: sendDiscordWebhook_oneshot_def sendDiscordWebhook_def nullish_def one
          discord_try_def SendResult.truncate_def Let_def
        split: outcome.splits thrown.splits)
qed


lemma fetches_backoff: "fetches (backoff B M a) = 0"
  by (simp add: backoff_def Let_def)

lemma relay_loop_fetches:
  "nat (M + 1 - a) = n \<Longrightarrow> fetches (snd (relay_loop M B T u b h net a le ls)) \<le> n"
proof (induction n arbitrary: a le ls)
  case 0
  then have "M < a" by simp
  then show ?case by (simp add: relay_loop_exhausted)
next
  case (Suc n)
  then have le: "a \<le> M" and n: "nat (M + 1 - (a + 1)) = n" by simp_all
  show ?case
  proof (cases "relay_try T a ls (net a)")
    case (Return r)
    with le show ?thesis by (subst relay_loop.simps) simp
  next
    case (Next st)
    obtain e s where st: "st = (e, s)" by (cases st)
    have "fetches (snd (relay_loop M B T u b h net a le ls)) =
          Suc (fetches (snd (relay_loop M B T u b h net (a + 1) e s)))"
      using le Next st by (subst relay_loop.simps) (simp add: fetches_append fetches_backoff)
    with Suc.IH [OF n, of e s] show ?thesis by simp
  qed
qed

lemma truncated_options:
  "max_attempts_of (map_option RetryOptions.truncate opts) = max_attempts_of opts"
  "base_delay_of (map_option RetryOptions.truncate opts) = base_delay_of opts"
  by (cases opts; simp add: max_attempts_of_def base_delay_of_def RetryOptions.truncate_def)+

lemma signatureCheck_passes:
  assumes "\<not> truthy secret \<or>
           (\<exists>signature sec. secret = Some sec \<and>
              map_of hdrs ''x-sentinel-signature'' = Some signature \<and> signature \<noteq> [] \<and>
              verify rawBody signature sec)"
  shows "signatureCheck verify secret rawBody hdrs = None"
  using assms by (auto simp: signatureCheck_def truthy_def split: option.splits)

lemma relay_loop_result_independent:
  "nat (M + 1 - a) = n \<Longrightarrow>
   fst (relay_loop M B T u b h net a le ls) = fst (relay_loop M B T u' b' h' net a le ls)"
proof (induction n arbitrary: a le ls)
  case 0
  then have "M < a" by simp
  then show ?case by (simp add: relay_loop_exhausted)
next
  case (Suc n)
  then have le: "a \<le> M" and n: "nat (M + 1 - (a + 1)) = n" by simp_all
  show ?case
  proof (cases "relay_try T a ls (net a)")
    case (Return r)
    with le show ?thesis
      by (simp add: relay_loop.simps [of M B T u b h net a] relay_loop.simps [of M B T u' b' h' net a])
  next
    case (Next st)
    obtain e s where st: "st = (e, s)" by (cases st)
    with le Next Suc.IH [OF n, of e s] show ?thesis
      by (simp add: relay_loop.simps [of M B T u b h net a] relay_loop.simps [of M B T u' b' h' net a])
  qed
qed

lemma relay_result_headers:
  "fst (sendRelayRequest u b h opts net) = fst (sendRelayRequest u b h' opts net)"
  using relay_loop_result_independent [OF refl] by (simp add: relay_options)

lemma relay_loop_timeline_independent:
  "nat (M + 1 - a) = n \<Longrightarrow>
   timeline (snd (relay_loop M B T u b h net a le ls)) =
   timeline (snd (relay_loop M B T u' b' h' net a le ls))"
proof (induction n arbitrary: a le ls)
  case 0
  then have "M < a" by simp
  then show ?case by (simp add: relay_loop_exhausted timeline_def)
next
  case (Suc n)
  then have le: "a \<le> M" and n: "nat (M + 1 - (a + 1)) = n" by simp_all
  show ?case
  proof (cases "relay_try T a ls (net a)")
    case (Return r)
    with le show ?thesis
      by (simp add: relay_loop.simps [of M B T u b h net a] relay_loop.simps [of M B T u' b' h' net a]
            timeline_def backoff_def Let_def)
  next
    case (Next st)
    obtain e s where st: "st = (e, s)" by (cases st)
    with le Next Suc.IH [OF n, of e s] show ?thesis
      by (simp add: relay_loop.simps [of M B T u b h net a] relay_loop.simps [of M B T u' b' h' net a]
            timeline_def backoff_def Let_def)
  qed
qed

lemma relay_timeline_headers:
  "timeline (snd (sendRelayRequest u b h opts net)) =
   timeline (snd (sendRelayRequest u b h' opts net))"
  using relay_loop_timeline_independent [OF refl] by (simp add: relay_options)

lemma map_of_forwarded:
  "distinct (map fst originalHeaders) \<Longrightarrow>
   map_of (fold (\<lambda>(key, val) hs. if P key then AList.update key val hs else hs) originalHeaders acc) k =
     (if P k then (case map_of originalHeaders k of Some v \<Rightarrow> Some v | None \<Rightarrow> map_of acc k)
      else map_of acc k)"
proof (induction originalHeaders arbitrary: acc k)
  case Nil
  show ?case by simp
next
  case (Cons entry rest)
  obtain key val where entry: "entry = (key, val)" by (cases entry)
  from Cons.prems entry have "key \<notin> fst ` set rest" and rest: "distinct (map fst rest)"
    by simp_all
  then have fresh: "map_of rest key = None"
    by (simp add: map_of_eq_None_iff)
  note IH = Cons.IH [OF rest]
  show ?case
  proof (cases "P key")
    case True
    then show ?thesis by (simp add: entry IH fresh update_conv' split: option.splits)
  next
    case False
    then show ?thesis by (auto simp: entry IH fresh split: option.splits)
  qed
qed

lemma updates_agree:
  "map_of a = map_of b \<Longrightarrow>
   map_of (fold (\<lambda>(key, val) hs. if P key then AList.update key val hs else hs) entries a) =
   map_of (fold (\<lambda>(key, val) hs. if P key then AList.update key val hs else hs) entries b)"
proof (induction entries arbitrary: a b)
  case Nil
  then show ?case by simp
next
  case (Cons entry rest)
  obtain key val where entry: "entry = (key, val)" by (cases entry)
  have "map_of (if P key then AList.update key val a else a) =
        map_of (if P key then AList.update key val b else b)"
    using Cons.prems by (simp add: update_conv')
  then have "map_of (fold (\<lambda>(key, val) hs. if P key then AList.update key val hs else hs) rest
                       (if P key then AList.update key val a else a)) =
             map_of (fold (\<lambda>(key, val) hs. if P key then AList.update key val hs else hs) rest
                       (if P key then AList.update key val b else b))"
    by (rule Cons.IH)
  then show ?case
    by (simp add: entry)
qed

lemma forward_step:
  "(\<lambda>(key, val) hs. if P key then assign key val hs else hs) =
   (\<lambda>(key, val) hs. if P key \<and> key \<noteq> ''__proto__'' then AList.update key val hs else hs)"
  by (auto simp: assign_def fun_eq_iff)

lemma custom_step:
  "(\<lambda>(key, val) hs. assign key val hs) =
   (\<lambda>(key, val) hs. if key \<noteq> ''__proto__'' then AList.update key val hs else hs)"
  by (auto simp: assign_def fun_eq_iff)

lemma forwarded_keeps:
  "map_of acc k \<noteq> None \<Longrightarrow>
   map_of (fold (\<lambda>(key, val) hs. if P key then AList.update key val hs else hs) xs acc) k \<noteq> None"
proof (induction xs arbitrary: acc)
  case Nil
  then show ?case by simp
next
  case (Cons entry rest)
  obtain key val where entry: "entry = (key, val)" by (cases entry)
  show ?case
  proof (cases "P key")
    case True
    have "map_of (AList.update key val acc) k \<noteq> None"
      using Cons.prems by (simp add: update_conv')
    then have "map_of (fold (\<lambda>(key, val) hs. if P key then AList.update key val hs else hs) rest
                 (AList.update key val acc)) k \<noteq> None"
      by (rule Cons.IH)
    with True show ?thesis by (simp add: entry)
  next
    case False
    have "map_of (fold (\<lambda>(key, val) hs. if P key then AList.update key val hs else hs) rest acc) k
            \<noteq> None"
      using Cons.prems by (rule Cons.IH)
    with False show ?thesis by (simp add: entry)
  qed
qed

lemma forwarded_agree:
  assumes "distinct (map fst h1)" and "distinct (map fst h2)"
    and "\<forall>k. P k \<longrightarrow> map_of h1 k = map_of h2 k"
  shows "map_of (fold (\<lambda>(key, val) hs. if P key then AList.update key val hs else hs) h1 acc) =
         map_of (fold (\<lambda>(key, val) hs. if P key then AList.update key val hs else hs) h2 acc)"
proof
  fix k
  show "map_of (fold (\<lambda>(key, val) hs. if P key then AList.update key val hs else hs) h1 acc) k =
         map_of (fold (\<lambda>(key, val) hs. if P key then AList.update key val hs else hs) h2 acc) k"
    using assms(3) by (simp add: map_of_forwarded [OF assms(1)] map_of_forwarded [OF assms(2)])
qed

section \<open>Delivery\<close>

text \<open>
  C1. In \<open>sendRelayRequest\<close> and in the retrying \<open>sendDiscordWebhook\<close>, when the
  attempts 1 to \<open>n\<close> fail retryably and \<open>n\<close> is below \<open>maxAttempts\<close>, the
  delivery starts with these \<open>n\<close> requests, each followed by a wait of
  \<open>baseDelayMs * 2^(j-2)\<close> milliseconds after attempt \<open>j\<close> (no wait when that
  delay is not positive), and then issues request \<open>n + 1\<close>. With a base delay of
  1000 the waits before the attempts 2, 3 and 4 are 500, 1000 and 2000 milliseconds.
\<close>

theorem C1_backoff_delays:
  assumes "1 \<le> n" and "\<forall>j\<in>{1..n}. retryable_failure (net j)"
  shows "(n < max_attempts_of ropts \<longrightarrow>
            prefix (failed_attempts (Fetch url hs body (Some (timeout_of ropts))) (base_delay_of ropts) n
                      @ [Fetch url hs body (Some (timeout_of ropts))])
                   (snd (sendRelayRequest url body hs ropts net))) \<and>
         (n < max_attempts_of dopts \<longrightarrow>
            prefix (failed_attempts (discord_request url' payload) (base_delay_of dopts) n
                      @ [discord_request url' payload])
                   (snd (sendDiscordWebhook url' payload dopts net)))"
  using assms by (simp add: relay_continues discord_continues)

theorem C1_backoff_delays_witness:
  "prefix [Fetch ''https://relay.example/hook'' [] () (Some 30000), Sleep 500,
           Fetch ''https://relay.example/hook'' [] () (Some 30000), Sleep 1000,
           Fetch ''https://relay.example/hook'' [] () (Some 30000), Sleep 2000,
           Fetch ''https://relay.example/hook'' [] () (Some 30000)]
     (snd (sendRelayRequest ''https://relay.example/hook'' () []
             (Some \<lparr>maxAttempts = Some 4, baseDelayMs = Some 1000, timeoutMs = None\<rparr>)
             (every_attempt (Response 500 None)))) \<and>
   prefix [discord_request ''https://discord.example/hook'' (), Sleep 500,
           discord_request ''https://discord.example/hook'' (), Sleep 1000,
           discord_request ''https://discord.example/hook'' (), Sleep 2000,
           discord_request ''https://discord.example/hook'' ()]
     (snd (sendDiscordWebhook ''https://discord.example/hook'' ()
             (Some \<lparr>maxAttempts = Some 4, baseDelayMs = Some 1000\<rparr>)
             (every_attempt (Response 500 None))))"
proof -
  have made: "(1::int) \<le> 3"
    by simp
  have failed: "\<forall>j\<in>{1..3}. retryable_failure (every_attempt (Response 500 None) j)"
    by (simp add: every_attempt_def retryable_failure_def response_ok_def shouldRetry_def)
  have budget:
    "3 < max_attempts_of (Some \<lparr>maxAttempts = Some 4, baseDelayMs = Some 1000, timeoutMs = None\<rparr>)"
    "3 < max_attempts_of (Some \<lparr>maxAttempts = Some 4, baseDelayMs = Some 1000\<rparr>)"
    by (simp_all add: max_attempts_of_def nullish_def)
  from budget
    C1_backoff_delays [where n = 3 and net = "every_attempt (Response 500 None)"
      and ropts = "Some \<lparr>maxAttempts = Some 4, baseDelayMs = Some 1000, timeoutMs = None\<rparr>"
      and url = "''https://relay.example/hook''" and hs = "[]" and body = "()"
      and dopts = "Some \<lparr>maxAttempts = Some 4, baseDelayMs = Some 1000\<rparr>"
      and url' = "''https://discord.example/hook''" and payload = "()", OF made failed]
  show ?thesis
    by (simp add: base_delay_of_def timeout_of_def nullish_def failed_attempts_def
          inter_attempt_wait_def power_int_minus upto.simps)
qed

text \<open>
  C2, as amended. When attempt \<open>k\<close> of \<open>sendRelayRequest\<close> is made and its response has
  a status outside 200 to 299: if the status is neither 429 nor at least 500, the
  delivery returns at once with \<open>success = false\<close>, \<open>attempts = k\<close>, that status and the
  error \<open>HTTP <status>: <body text, or Unknown error>\<close>, the request of attempt \<open>k\<close>
  being its last effect; if the status is 429 or at least 500 (the 5xx statuses and
  every status above 599) and \<open>k\<close> is below \<open>maxAttempts\<close>, the wait and attempt
  \<open>k + 1\<close> follow; and if such a status arrives on the last attempt the delivery
  returns the same failure record.
\<close>

theorem C2_retry_classification:
  assumes "1 \<le> k" and "k \<le> max_attempts_of opts" and "\<forall>j\<in>{1..k - 1}. retryable_failure (net j)"
    and "net k = Response st content" and "\<not> response_ok st"
  shows "(\<not> (st = 429 \<or> 500 \<le> st) \<longrightarrow>
            sendRelayRequest url body hs opts net =
              (\<lparr>success = False, error = Some (http_error st content), attempts = k,
                statusCode = Some st\<rparr>,
               failed_attempts (Fetch url hs body (Some (timeout_of opts))) (base_delay_of opts) (k - 1)
                 @ [Fetch url hs body (Some (timeout_of opts))])) \<and>
         ((st = 429 \<or> 500 \<le> st) \<and> k < max_attempts_of opts \<longrightarrow>
            prefix (failed_attempts (Fetch url hs body (Some (timeout_of opts))) (base_delay_of opts) k
                      @ [Fetch url hs body (Some (timeout_of opts))])
                   (snd (sendRelayRequest url body hs opts net))) \<and>
         ((st = 429 \<or> 500 \<le> st) \<and> k = max_attempts_of opts \<longrightarrow>
            sendRelayRequest url body hs opts net =
              (\<lparr>success = False, error = Some (http_error st content), attempts = k,
                statusCode = Some st\<rparr>,
               failed_attempts (Fetch url hs body (Some (timeout_of opts))) (base_delay_of opts) (k - 1)
                 @ [Fetch url hs body (Some (timeout_of opts))]))"
proof (intro conjI impI)
  assume "\<not> (st = 429 \<or> 500 \<le> st)"
  then have "\<not> shouldRetry st" by (simp add: shouldRetry_def)
  then show "sendRelayRequest url body hs opts net =
              (\<lparr>success = False, error = Some (http_error st content), attempts = k,
                statusCode = Some st\<rparr>,
               failed_attempts (Fetch url hs body (Some (timeout_of opts))) (base_delay_of opts) (k - 1)
                 @ [Fetch url hs body (Some (timeout_of opts))])"
    using assms(2,4,5) by (simp add: relay_reaches [OF assms(1-3)] relay_loop_reject)
next
  assume retry: "(st = 429 \<or> 500 \<le> st) \<and> k < max_attempts_of opts"
  then have "retryable_failure (net k)"
    using assms(4,5) by (simp add: retryable_failure_def shouldRetry_def)
  then have "\<forall>j\<in>{1..k}. retryable_failure (net j)"
    using assms(3) by (auto simp: le_less)
  with assms(1) retry
  show "prefix (failed_attempts (Fetch url hs body (Some (timeout_of opts))) (base_delay_of opts) k
                      @ [Fetch url hs body (Some (timeout_of opts))])
                   (snd (sendRelayRequest url body hs opts net))"
    by (simp add: relay_continues)
next
  assume last: "(st = 429 \<or> 500 \<le> st) \<and> k = max_attempts_of opts"
  then have "retryable_failure (net k)"
    using assms(4,5) by (simp add: retryable_failure_def shouldRetry_def)
  then have all: "\<forall>j\<in>{1..k}. retryable_failure (net j)"
    using assms(3) by (auto simp: le_less)
  from last have M: "max_attempts_of opts = k" by simp
  show "sendRelayRequest url body hs opts net =
              (\<lparr>success = False, error = Some (http_error st content), attempts = k,
                statusCode = Some st\<rparr>,
               failed_attempts (Fetch url hs body (Some (timeout_of opts))) (base_delay_of opts) (k - 1)
                 @ [Fetch url hs body (Some (timeout_of opts))])"
    using assms(1,4)
    by (simp add: relay_exhaustion [OF assms(1) M all] relay_error_def last_status_def upto_rec2)
qed

theorem C2_retry_classification_witness:
  "sendRelayRequest ''https://relay.example/hook'' () [] None
     (every_attempt (Response 404 (Some ''Not Found''))) =
     (\<lparr>success = False, error = Some ''HTTP 404: Not Found'', attempts = 1,
       statusCode = Some 404\<rparr>,
      [Fetch ''https://relay.example/hook'' [] () (Some 30000)]) \<and>
   prefix [Fetch ''https://relay.example/hook'' [] () (Some 30000), Sleep 500,
           Fetch ''https://relay.example/hook'' [] () (Some 30000)]
     (snd (sendRelayRequest ''https://relay.example/hook'' () [] None
             (every_attempt (Response 429 None))))"
proof -
  have made: "(1::int) \<le> 1"
    by simp
  have budget: "1 \<le> max_attempts_of (None :: RelayOptions option)"
    "1 < max_attempts_of (None :: RelayOptions option)"
    by (simp_all add: max_attempts_of_def nullish_def)
  have before: "\<forall>j\<in>{1..1 - 1}. retryable_failure (every_attempt oc j)" for oc
    by simp
  have rejected: "every_attempt (Response 404 (Some ''Not Found'')) 1 = Response 404 (Some ''Not Found'')"
    and limited: "every_attempt (Response 429 None) 1 = Response 429 None"
    by (simp_all add: every_attempt_def)
  have failure: "\<not> response_ok 404" "\<not> response_ok 429"
    by (simp_all add: response_ok_def)
  from budget(2)
    C2_retry_classification [where k = 1 and opts = None
      and net = "every_attempt (Response 404 (Some ''Not Found''))" and st = 404
      and content = "Some ''Not Found''" and url = "''https://relay.example/hook''" and body = "()"
      and hs = "[]", OF made budget(1) before rejected failure(1)]
    C2_retry_classification [where k = 1 and opts = None
      and net = "every_attempt (Response 429 None)" and st = 429
      and content = None and url = "''https://relay.example/hook''" and body = "()"
      and hs = "[]", OF made budget(1) before limited failure(2)]
  show ?thesis
    by (simp add: base_delay_of_def timeout_of_def nullish_def failed_attempts_def
          inter_attempt_wait_def http_error_def toString_def toString_nat.simps power_int_minus)
qed

theorem C2_status_600_counterexample:
  "fst (sendRelayRequest ''https://relay.example/hook'' () [] None
          (every_attempt (Response 600 None))) =
     \<lparr>success = False, error = Some ''HTTP 600: Unknown error'', attempts = 3,
      statusCode = Some 600\<rparr> \<and>
   fetches (snd (sendRelayRequest ''https://relay.example/hook'' () [] None
                   (every_attempt (Response 600 None)))) = 3"
  by (simp add: sendRelayRequest_def relay_loop.simps relay_try_def backoff_def every_attempt_def
        response_ok_def shouldRetry_def nullish_def toString_def toString_nat.simps
        power_int_minus)

text \<open>
  C3, as amended. \<open>sendRelayRequest\<close> and the retrying \<open>sendDiscordWebhook\<close> (of
  \<open>src/discord.ts\<close>, the chat bridge, the server status and the player activity
  integrations), run with the same \<open>maxAttempts\<close> and \<open>baseDelayMs\<close> against the same
  sequence of outcomes, return the same \<open>success\<close> and \<open>attempts\<close> and make the same
  requests and waits in the same order, at most \<open>maxAttempts\<close> requests (3 by default);
  they return the same \<open>error\<close> when no attempt is cut short by the abort timer, which
  only the relay arms. The \<open>sendDiscordWebhook\<close> of \<open>part_003\<close> does not retry: it
  behaves as the retrying sender with \<open>maxAttempts = 1\<close> and returns no \<open>attempts\<close>.
\<close>

theorem C3_retrying_senders_agree:
  "success (fst (sendRelayRequest url body hs opts net)) =
     success (fst (sendDiscordWebhook url' payload (map_option RetryOptions.truncate opts) net)) \<and>
   attempts (fst (sendRelayRequest url body hs opts net)) =
     attempts (fst (sendDiscordWebhook url' payload (map_option RetryOptions.truncate opts) net)) \<and>
   timeline (snd (sendRelayRequest url body hs opts net)) =
     timeline (snd (sendDiscordWebhook url' payload (map_option RetryOptions.truncate opts) net)) \<and>
   ((\<forall>j. \<not> timed_out (net j)) \<longrightarrow>
      error (fst (sendRelayRequest url body hs opts net)) =
        error (fst (sendDiscordWebhook url' payload (map_option RetryOptions.truncate opts) net))) \<and>
   fetches (snd (sendRelayRequest url body hs opts net)) \<le> nat (max_attempts_of opts) \<and>
   max_attempts_of (None :: RelayOptions option) = 3 \<and>
   sendDiscordWebhook_oneshot url' payload net =
     (SendResult.truncate
        (fst (sendDiscordWebhook url' payload (Some \<lparr>maxAttempts = Some 1, baseDelayMs = b\<rparr>) net)),
      snd (sendDiscordWebhook url' payload (Some \<lparr>maxAttempts = Some 1, baseDelayMs = b\<rparr>) net))"
proof -
  let ?M = "max_attempts_of opts" and ?B = "base_delay_of opts" and ?T = "timeout_of opts"
  note agree = senders_in_step [where M = ?M and a = 1 and B = ?B and T = ?T and u = url and b = body
      and h = hs and net = net and le = "[]" and ls = None and u' = url' and p = payload
      and le' = "[]", OF refl]
  have bound: "fetches (snd (sendRelayRequest url body hs opts net)) \<le> nat (max_attempts_of opts)"
    using relay_loop_fetches [where M = ?M and a = 1, OF refl] by (simp add: relay_options)
  have retrying:
    "success (fst (sendRelayRequest url body hs opts net)) =
       success (fst (sendDiscordWebhook url' payload (map_option RetryOptions.truncate opts) net)) \<and>
     attempts (fst (sendRelayRequest url body hs opts net)) =
       attempts (fst (sendDiscordWebhook url' payload (map_option RetryOptions.truncate opts) net)) \<and>
     timeline (snd (sendRelayRequest url body hs opts net)) =
       timeline (snd (sendDiscordWebhook url' payload (map_option RetryOptions.truncate opts) net)) \<and>
     ((\<forall>j. \<not> timed_out (net j)) \<longrightarrow>
        error (fst (sendRelayRequest url body hs opts net)) =
          error (fst (sendDiscordWebhook url' payload (map_option RetryOptions.truncate opts) net)))"
    using agree by (simp add: relay_options discord_options truncated_options)
  show ?thesis
    by (intro conjI retrying [THEN conjunct1] retrying [THEN conjunct2, THEN conjunct1]
          retrying [THEN conjunct2, THEN conjunct2, THEN conjunct1]
          retrying [THEN conjunct2, THEN conjunct2, THEN conjunct2] bound
          oneshot_is_single_attempt)
       (simp add: max_attempts_of_def nullish_def)
qed

theorem C3_retrying_senders_agree_witness:
  "fst (sendRelayRequest ''https://relay.example/hook'' () [] None
          (every_attempt (Response 503 (Some ''busy'')))) =
     \<lparr>success = False, error = Some ''HTTP 503: busy'', attempts = 3, statusCode = Some 503\<rparr> \<and>
   fst (sendDiscordWebhook ''https://discord.example/hook'' () None
          (every_attempt (Response 503 (Some ''busy'')))) =
     \<lparr>success = False, error = Some ''HTTP 503: busy'', attempts = 3\<rparr> \<and>
   timeline (snd (sendRelayRequest ''https://relay.example/hook'' () [] None
                    (every_attempt (Response 503 (Some ''busy''))))) =
     [None, Some 500, None, Some 1000, None] \<and>
   timeline (snd (sendDiscordWebhook ''https://discord.example/hook'' () None
                    (every_attempt (Response 503 (Some ''busy''))))) =
     [None, Some 500, None, Some 1000, None]"
proof -
  have untimed: "\<forall>j. \<not> timed_out (every_attempt (Response 503 (Some ''busy'')) j)"
    by (simp add: every_attempt_def timed_out_def)
  have relay:
    "sendRelayRequest ''https://relay.example/hook'' () [] None
       (every_attempt (Response 503 (Some ''busy''))) =
       (\<lparr>success = False, error = Some ''HTTP 503: busy'', attempts = 3, statusCode = Some 503\<rparr>,
        [Fetch ''https://relay.example/hook'' [] () (Some 30000), Sleep 500,
         Fetch ''https://relay.example/hook'' [] () (Some 30000), Sleep 1000,
         Fetch ''https://relay.example/hook'' [] () (Some 30000)])"
    by (simp add: sendRelayRequest_def relay_loop.simps relay_try_def backoff_def every_attempt_def
          response_ok_def shouldRetry_def nullish_def toString_def toString_nat.simps
          power_int_minus)
  from untimed
    C3_retrying_senders_agree [where url = "''https://relay.example/hook''" and body = "()"
      and hs = "[]" and opts = None and net = "every_attempt (Response 503 (Some ''busy''))"
      and url' = "''https://discord.example/hook''" and payload = "()" and b = None]
  have "success (fst (sendDiscordWebhook ''https://discord.example/hook'' () None
                        (every_attempt (Response 503 (Some ''busy''))))) = False"
    and "attempts (fst (sendDiscordWebhook ''https://discord.example/hook'' () None
                        (every_attempt (Response 503 (Some ''busy''))))) = 3"
    and "error (fst (sendDiscordWebhook ''https://discord.example/hook'' () None
                        (every_attempt (Response 503 (Some ''busy''))))) = Some ''HTTP 503: busy''"
    and "timeline (snd (sendDiscordWebhook ''https://discord.example/hook'' () None
                        (every_attempt (Response 503 (Some ''busy''))))) =
           [None, Some 500, None, Some 1000, None]"
    by (simp_all add: relay timeline_def)
  then show ?thesis
    by (cases "fst (sendDiscordWebhook ''https://discord.example/hook'' () None
                      (every_attempt (Response 503 (Some ''busy''))))")
       (simp add: relay timeline_def)
qed

theorem C3_oneshot_counterexample:
  "fst (sendRelayRequest ''https://relay.example/hook'' () [] None
          ((every_attempt (Response 503 None))(2 := Response 204 None))) =
     \<lparr>success = True, error = None, attempts = 2, statusCode = Some 204\<rparr> \<and>
   fst (sendDiscordWebhook ''https://discord.example/hook'' () None
          ((every_attempt (Response 503 None))(2 := Response 204 None))) =
     \<lparr>success = True, error = None, attempts = 2\<rparr> \<and>
   sendDiscordWebhook_oneshot ''https://discord.example/hook'' ()
     ((every_attempt (Response 503 None))(2 := Response 204 None)) =
     (\<lparr>success = False, error = Some ''HTTP 503: Unknown error''\<rparr>,
      [discord_request ''https://discord.example/hook'' ()]) \<and>
   error (fst (sendRelayRequest ''https://relay.example/hook'' () []
                 (Some \<lparr>maxAttempts = Some 1, baseDelayMs = None, timeoutMs = None\<rparr>)
                 (every_attempt (Throws (JsError ''AbortError'' ''This operation was aborted''))))) =
     Some ''Request timeout (30000ms)'' \<and>
   error (fst (sendDiscordWebhook ''https://discord.example/hook'' ()
                 (Some \<lparr>maxAttempts = Some 1, baseDelayMs = None\<rparr>)
                 (every_attempt (Throws (JsError ''AbortError'' ''This operation was aborted''))))) =
     Some ''This operation was aborted''"
  by (simp add: sendRelayRequest_def sendDiscordWebhook_def sendDiscordWebhook_oneshot_def
        relay_loop.simps discord_loop.simps relay_try_def discord_try_def backoff_def
        every_attempt_def response_ok_def shouldRetry_def nullish_def toString_def
        toString_nat.simps power_int_minus discord_request_def)

text \<open>
  C4, as amended. When \<open>maxAttempts\<close> is \<open>N\<close>, at least 1, and all \<open>N\<close> attempts fail
  retryably, \<open>sendRelayRequest\<close> returns \<open>success = false\<close>, \<open>attempts = N\<close>, the error
  of attempt \<open>N\<close> and the status of the last response received, if any; the retrying
  \<open>sendDiscordWebhook\<close> returns the same without a status. It makes \<open>N\<close> requests and
  waits after each of the attempts 1 to \<open>N - 1\<close> whose delay \<open>baseDelayMs * 2^(j-2)\<close>
  is positive: exactly \<open>N - 1\<close> times when \<open>baseDelayMs\<close> is positive, and never when
  \<open>baseDelayMs\<close> is zero or negative.
\<close>

theorem C4_exhaustion:
  assumes "1 \<le> N" and "\<forall>j\<in>{1..N}. retryable_failure (net j)"
  shows "(max_attempts_of opts = N \<longrightarrow>
            sendRelayRequest url body hs opts net =
              (\<lparr>success = False, error = Some (relay_error (timeout_of opts) (net N)), attempts = N,
                statusCode = last_status (map net [1..N])\<rparr>,
               failed_attempts (Fetch url hs body (Some (timeout_of opts))) (base_delay_of opts) (N - 1)
                 @ [Fetch url hs body (Some (timeout_of opts))]) \<and>
            fetches (snd (sendRelayRequest url body hs opts net)) = nat N \<and>
            sleeps (snd (sendRelayRequest url body hs opts net)) =
              filter (\<lambda>d. 0 < d) (map (\<lambda>j. base_delay_of opts * 2 powi (j - 2)) [1..N - 1]) \<and>
            (0 < base_delay_of opts \<longrightarrow>
               length (sleeps (snd (sendRelayRequest url body hs opts net))) = nat (N - 1)) \<and>
            (base_delay_of opts \<le> 0 \<longrightarrow> sleeps (snd (sendRelayRequest url body hs opts net)) = [])) \<and>
         (max_attempts_of dopts = N \<longrightarrow>
            sendDiscordWebhook url' payload dopts net =
              (\<lparr>success = False, error = Some (discord_error (net N)), attempts = N\<rparr>,
               failed_attempts (discord_request url' payload) (base_delay_of dopts) (N - 1)
                 @ [discord_request url' payload]))"
proof (intro conjI impI)
  assume M: "max_attempts_of opts = N"
  note run = relay_exhaustion [OF assms(1) M assms(2), of url body hs]
  show "sendRelayRequest url body hs opts net =
              (\<lparr>success = False, error = Some (relay_error (timeout_of opts) (net N)), attempts = N,
                statusCode = last_status (map net [1..N])\<rparr>,
               failed_attempts (Fetch url hs body (Some (timeout_of opts))) (base_delay_of opts) (N - 1)
                 @ [Fetch url hs body (Some (timeout_of opts))])"
    by (rule run)
  show "fetches (snd (sendRelayRequest url body hs opts net)) = nat N"
    using assms(1) by (simp add: run fetches_append fetches_failed_attempts nat_diff_distrib)
  show sl: "sleeps (snd (sendRelayRequest url body hs opts net)) =
              filter (\<lambda>d. 0 < d) (map (\<lambda>j. base_delay_of opts * 2 powi (j - 2)) [1..N - 1])"
    using assms(1) by (simp add: run sleeps_append sleeps_failed_attempts)
  show "length (sleeps (snd (sendRelayRequest url body hs opts net))) = nat (N - 1)"
    if "0 < base_delay_of opts"
    using that by (simp add: sl delays_all_positive)
  show "sleeps (snd (sendRelayRequest url body hs opts net)) = []" if "base_delay_of opts \<le> 0"
    using that by (simp add: sl delays_none_positive)
next
  assume "max_attempts_of dopts = N"
  then show "sendDiscordWebhook url' payload dopts net =
              (\<lparr>success = False, error = Some (discord_error (net N)), attempts = N\<rparr>,
               failed_attempts (discord_request url' payload) (base_delay_of dopts) (N - 1)
                 @ [discord_request url' payload])"
    using assms by (simp add: discord_exhaustion)
qed

theorem C4_exhaustion_witness:
  "fst (sendRelayRequest ''https://relay.example/hook'' () [] None (every_attempt (Response 500 None))) =
     \<lparr>success = False, error = Some ''HTTP 500: Unknown error'', attempts = 3,
      statusCode = Some 500\<rparr> \<and>
   fetches (snd (sendRelayRequest ''https://relay.example/hook'' () [] None
                   (every_attempt (Response 500 None)))) = 3 \<and>
   sleeps (snd (sendRelayRequest ''https://relay.example/hook'' () [] None
                  (every_attempt (Response 500 None)))) = [500, 1000] \<and>
   fst (sendDiscordWebhook ''https://discord.example/hook'' () None
          (every_attempt (Response 500 None))) =
     \<lparr>success = False, error = Some ''HTTP 500: Unknown error'', attempts = 3\<rparr>"
proof -
  have made: "(1::int) \<le> 3"
    by simp
  have failed: "\<forall>j\<in>{1..3}. retryable_failure (every_attempt (Response 500 None) j)"
    by (simp add: every_attempt_def retryable_failure_def response_ok_def shouldRetry_def)
  have budget: "max_attempts_of (None :: RelayOptions option) = 3"
    "max_attempts_of (None :: RetryOptions option) = 3"
    by (simp_all add: max_attempts_of_def nullish_def)
  have delay: "0 < base_delay_of (None :: RelayOptions option)"
    by (simp add: base_delay_of_def nullish_def)
  from budget delay
    C4_exhaustion [where N = 3 and net = "every_attempt (Response 500 None)" and opts = None
      and url = "''https://relay.example/hook''" and body = "()" and hs = "[]" and dopts = None
      and url' = "''https://discord.example/hook''" and payload = "()", OF made failed]
  show ?thesis
    by (simp add: every_attempt_def base_delay_of_def timeout_of_def nullish_def
          relay_error_def discord_error_def http_error_def toString_def toString_nat.simps
          last_status_def failed_attempts_def inter_attempt_wait_def power_int_minus upto.simps)
qed

theorem C4_zero_delay_counterexample:
  "fst (sendRelayRequest ''https://relay.example/hook'' () []
          (Some \<lparr>maxAttempts = Some 3, baseDelayMs = Some 0, timeoutMs = None\<rparr>)
          (every_attempt (Response 500 None))) =
     \<lparr>success = False, error = Some ''HTTP 500: Unknown error'', attempts = 3,
      statusCode = Some 500\<rparr> \<and>
   sleeps (snd (sendRelayRequest ''https://relay.example/hook'' () []
                  (Some \<lparr>maxAttempts = Some 3, baseDelayMs = Some 0, timeoutMs = None\<rparr>)
                  (every_attempt (Response 500 None)))) = []"
  by (simp add: sendRelayRequest_def relay_loop.simps relay_try_def backoff_def every_attempt_def
        response_ok_def shouldRetry_def nullish_def toString_def toString_nat.simps)

text \<open>
  C5. When attempt \<open>k\<close> is made (the attempts before it failed retryably and \<open>k\<close> is
  within \<open>maxAttempts\<close>) and receives a 2xx response, \<open>sendRelayRequest\<close> returns
  \<open>success = true\<close>, \<open>attempts = k\<close> and that status, and the request of attempt \<open>k\<close>
  is its last effect: no further attempt and no wait follows. The retrying
  \<open>sendDiscordWebhook\<close> does the same without the status. Whenever \<open>sendRelayRequest\<close>
  returns \<open>success = true\<close>, the error is absent. A single 200 on attempt 1 gives
  \<open>attempts = 1\<close> and no wait.
\<close>

theorem C5_success:
  assumes "1 \<le> k" and "\<forall>j\<in>{1..k - 1}. retryable_failure (net j)"
    and "net k = Response st content" and "response_ok st"
  shows "(k \<le> max_attempts_of opts \<longrightarrow>
            sendRelayRequest url body hs opts net =
              (\<lparr>success = True, error = None, attempts = k, statusCode = Some st\<rparr>,
               failed_attempts (Fetch url hs body (Some (timeout_of opts))) (base_delay_of opts) (k - 1)
                 @ [Fetch url hs body (Some (timeout_of opts))])) \<and>
         (k \<le> max_attempts_of dopts \<longrightarrow>
            sendDiscordWebhook url' payload dopts net =
              (\<lparr>success = True, error = None, attempts = k\<rparr>,
               failed_attempts (discord_request url' payload) (base_delay_of dopts) (k - 1)
                 @ [discord_request url' payload])) \<and>
         (success (fst (sendRelayRequest url'' body' hs' opts' net')) \<longrightarrow>
            error (fst (sendRelayRequest url'' body' hs' opts' net')) = None)"
proof (intro conjI impI)
  assume le: "k \<le> max_attempts_of opts"
  show "sendRelayRequest url body hs opts net =
           (\<lparr>success = True, error = None, attempts = k, statusCode = Some st\<rparr>,
            failed_attempts (Fetch url hs body (Some (timeout_of opts))) (base_delay_of opts) (k - 1)
              @ [Fetch url hs body (Some (timeout_of opts))])"
    using le assms(3,4) by (simp add: relay_reaches [OF assms(1) le assms(2)] relay_loop_success)
next
  assume le: "k \<le> max_attempts_of dopts"
  show "sendDiscordWebhook url' payload dopts net =
              (\<lparr>success = True, error = None, attempts = k\<rparr>,
               failed_attempts (discord_request url' payload) (base_delay_of dopts) (k - 1)
                 @ [discord_request url' payload])"
    using le assms(3,4) by (simp add: discord_reaches [OF assms(1) le assms(2)] discord_loop_success)
next
  assume "success (fst (sendRelayRequest url'' body' hs' opts' net'))"
  then show "error (fst (sendRelayRequest url'' body' hs' opts' net')) = None"
    by (simp add: relay_options relay_loop_error_absent)
qed

theorem C5_success_witness:
  "sendRelayRequest ''https://relay.example/hook'' () [] None (every_attempt (Response 200 None)) =
     (\<lparr>success = True, error = None, attempts = 1, statusCode = Some 200\<rparr>,
      [Fetch ''https://relay.example/hook'' [] () (Some 30000)]) \<and>
   sendDiscordWebhook ''https://discord.example/hook'' () None (every_attempt (Response 200 None)) =
     (\<lparr>success = True, error = None, attempts = 1\<rparr>,
      [discord_request ''https://discord.example/hook'' ()])"
proof -
  have made: "(1::int) \<le> 1"
    by simp
  have before: "\<forall>j\<in>{1..1 - 1}. retryable_failure (every_attempt (Response 200 None) j)"
    by simp
  have received: "every_attempt (Response 200 None) 1 = Response 200 None"
    by (simp add: every_attempt_def)
  have accepted: "response_ok 200"
    by (simp add: response_ok_def)
  have budget: "1 \<le> max_attempts_of (None :: RelayOptions option)"
    "1 \<le> max_attempts_of (None :: RetryOptions option)"
    by (simp_all add: max_attempts_of_def nullish_def)
  from budget
    C5_success [where k = 1 and net = "every_attempt (Response 200 None)" and st = 200
      and content = None and opts = None and url = "''https://relay.example/hook''" and body = "()"
      and hs = "[]" and dopts = None and url' = "''https://discord.example/hook''"
      and payload = "()" and url'' = "''https://relay.example/hook''" and body' = "()"
      and hs' = "[]" and opts' = None and net' = "every_attempt (Response 200 None)",
      OF made before received accepted]
  show ?thesis
    by (simp add: base_delay_of_def timeout_of_def nullish_def failed_attempts_def)
qed

text \<open>
  C6, as amended. In \<open>sendRelayRequest\<close> an attempt that the abort timer cuts short is
  a retryable failure that uses up one attempt: when it is the last attempt the
  delivery returns the error \<open>Request timeout (<timeoutMs>ms)\<close> with
  \<open>attempts = maxAttempts\<close>, otherwise the wait and the next attempt follow, with a
  request and a timer of their own. Every request of a delivery is issued with an
  abort timer of \<open>timeoutMs\<close> milliseconds, whatever \<open>timeoutMs\<close> is: a \<open>timeoutMs\<close>
  of 0 arms a timer of 0 milliseconds, and only an absent \<open>timeoutMs\<close> is replaced, by
  30000.
\<close>

theorem C6_timeout:
  assumes "1 \<le> k" and "k \<le> max_attempts_of opts" and "\<forall>j\<in>{1..k - 1}. retryable_failure (net j)"
    and "net k = Throws (JsError ''AbortError'' msg)"
  shows "(k = max_attempts_of opts \<longrightarrow>
            sendRelayRequest url body hs opts net =
              (\<lparr>success = False,
                error = Some (''Request timeout ('' @ toString (timeout_of opts) @ ''ms)''),
                attempts = k, statusCode = last_status (map net [1..k - 1])\<rparr>,
               failed_attempts (Fetch url hs body (Some (timeout_of opts))) (base_delay_of opts) (k - 1)
                 @ [Fetch url hs body (Some (timeout_of opts))])) \<and>
         (k < max_attempts_of opts \<longrightarrow>
            prefix (failed_attempts (Fetch url hs body (Some (timeout_of opts))) (base_delay_of opts) k
                      @ [Fetch url hs body (Some (timeout_of opts))])
                   (snd (sendRelayRequest url body hs opts net))) \<and>
         (\<forall>e\<in>set (snd (sendRelayRequest url' body' hs' opts' net')).
            case e of Fetch u h b signal \<Rightarrow> signal = Some (timeout_of opts') | Sleep d \<Rightarrow> True) \<and>
         timeout_of (Some (given\<lparr>timeoutMs := Some t\<rparr>)) = t \<and>
         timeout_of (Some (given\<lparr>timeoutMs := None\<rparr>)) = 30000 \<and>
         timeout_of (None :: RelayOptions option) = 30000"
proof (intro conjI impI ballI)
  show "timeout_of (Some (given\<lparr>timeoutMs := Some t\<rparr>)) = t"
    and "timeout_of (Some (given\<lparr>timeoutMs := None\<rparr>)) = 30000"
    and "timeout_of (None :: RelayOptions option) = 30000"
    by (simp_all add: timeout_of_def nullish_def)
next
  have "retryable_failure (net k)"
    using assms(4) by (simp add: retryable_failure_def)
  then have all: "\<forall>j\<in>{1..k}. retryable_failure (net j)"
    using assms(3) by (auto simp: le_less)
  {
    assume M: "k = max_attempts_of opts"
    show "sendRelayRequest url body hs opts net =
              (\<lparr>success = False,
                error = Some (''Request timeout ('' @ toString (timeout_of opts) @ ''ms)''),
                attempts = k, statusCode = last_status (map net [1..k - 1])\<rparr>,
               failed_attempts (Fetch url hs body (Some (timeout_of opts))) (base_delay_of opts) (k - 1)
                 @ [Fetch url hs body (Some (timeout_of opts))])"
      using assms(1,4)
      by (simp add: relay_exhaustion [OF assms(1) M [symmetric] all] relay_error_def last_status_def
            upto_rec2)
  }
  {
    assume "k < max_attempts_of opts"
    with assms(1) all
    show "prefix (failed_attempts (Fetch url hs body (Some (timeout_of opts))) (base_delay_of opts) k
                      @ [Fetch url hs body (Some (timeout_of opts))])
                   (snd (sendRelayRequest url body hs opts net))"
      by (simp add: relay_continues)
  }
  {
    fix e assume "e \<in> set (snd (sendRelayRequest url' body' hs' opts' net'))"
    then show "case e of Fetch u h b signal \<Rightarrow> signal = Some (timeout_of opts') | Sleep d \<Rightarrow> True"
      by (simp add: relay_options relay_loop_signals)
  }
qed

theorem C6_timeout_witness:
  "sendRelayRequest ''https://relay.example/hook'' () []
     (Some \<lparr>maxAttempts = Some 2, baseDelayMs = None, timeoutMs = Some 5000\<rparr>)
     (every_attempt (Throws (JsError ''AbortError'' ''This operation was aborted''))) =
     (\<lparr>success = False, error = Some ''Request timeout (5000ms)'', attempts = 2,
       statusCode = None\<rparr>,
      [Fetch ''https://relay.example/hook'' [] () (Some 5000), Sleep 500,
       Fetch ''https://relay.example/hook'' [] () (Some 5000)])"
proof -
  have made: "(2::int) \<le> 2" "(1::int) \<le> 2"
    by simp_all
  have budget:
    "2 \<le> max_attempts_of (Some \<lparr>maxAttempts = Some 2, baseDelayMs = None, timeoutMs = Some 5000\<rparr>)"
    "2 = max_attempts_of (Some \<lparr>maxAttempts = Some 2, baseDelayMs = None, timeoutMs = Some 5000\<rparr>)"
    by (simp_all add: max_attempts_of_def nullish_def)
  have before: "\<forall>j\<in>{1..2 - 1}. retryable_failure
      (every_attempt (Throws (JsError ''AbortError'' ''This operation was aborted'')) j)"
    by (simp add: every_attempt_def retryable_failure_def)
  have aborted: "every_attempt (Throws (JsError ''AbortError'' ''This operation was aborted'')) 2 =
      Throws (JsError ''AbortError'' ''This operation was aborted'')"
    by (simp add: every_attempt_def)
  from budget(2)
    C6_timeout [where k = 2
      and opts = "Some \<lparr>maxAttempts = Some 2, baseDelayMs = None, timeoutMs = Some 5000\<rparr>"
      and net = "every_attempt (Throws (JsError ''AbortError'' ''This operation was aborted''))"
      and msg = "''This operation was aborted''" and url = "''https://relay.example/hook''"
      and body = "()" and hs = "[]" and url' = "''https://relay.example/hook''" and body' = "()"
      and hs' = "[]" and opts' = None
      and net' = "every_attempt (Throws (JsError ''AbortError'' ''This operation was aborted''))"
      and given = "\<lparr>maxAttempts = Some 2, baseDelayMs = None, timeoutMs = Some 5000\<rparr>"
      and t = 5000, OF made(2) budget(1) before aborted]
  show ?thesis
    by (simp add: every_attempt_def base_delay_of_def timeout_of_def nullish_def
          failed_attempts_def inter_attempt_wait_def last_status_def toString_def
          toString_nat.simps power_int_minus)
qed

theorem C6_zero_timeout_counterexample:
  "sendRelayRequest ''https://relay.example/hook'' () []
     (Some \<lparr>maxAttempts = Some 1, baseDelayMs = None, timeoutMs = Some 0\<rparr>)
     (every_attempt (Throws (JsError ''AbortError'' ''This operation was aborted''))) =
     (\<lparr>success = False, error = Some ''Request timeout (0ms)'', attempts = 1, statusCode = None\<rparr>,
      [Fetch ''https://relay.example/hook'' [] () (Some 0)])"
  by (simp add: sendRelayRequest_def relay_loop.simps relay_try_def backoff_def every_attempt_def
        nullish_def toString_def toString_nat.simps)

section \<open>Inbound requests\<close>

text \<open>
  C7, as amended. For a handler with a configured (truthy) webhook secret and every
  raw body: when the \<open>x-sentinel-signature\<close> header is absent or empty, \<open>handleWebhook\<close>
  returns \<open>{ok: false, message: "Missing signature header"}\<close>; when it is present and
  not empty but verification fails, it returns \<open>{ok: false, message: "Invalid signature"}\<close>.
  In both cases the result is the same whatever \<open>JSON.parse\<close>, the router, the pattern
  matcher and the target would do, and there is no outbound effect: the request is
  rejected before the body is parsed or a handler runs. This holds for the relay
  handler and for the handlers of the Discord integrations.
\<close>

theorem C7_signature_rejection:
  assumes "webhookSecret ctx = Some secret" and "webhookSecret dctx = Some secret" and "secret \<noteq> []"
  shows "(map_of hdrs ''x-sentinel-signature'' = None \<or> map_of hdrs ''x-sentinel-signature'' = Some []
            \<longrightarrow>
            handleWebhook_relay verify parse matches ctx target rawBody hdrs =
              (Inr \<lparr>ok = False, message = ''Missing signature header''\<rparr>, []) \<and>
            handleWebhook_discord verify parse' router dctx rawBody hdrs =
              (Inr \<lparr>ok = False, message = ''Missing signature header''\<rparr>, [])) \<and>
         (map_of hdrs ''x-sentinel-signature'' = Some signature \<and> signature \<noteq> [] \<and>
          \<not> verify rawBody signature secret \<longrightarrow>
            handleWebhook_relay verify parse matches ctx target rawBody hdrs =
              (Inr \<lparr>ok = False, message = ''Invalid signature''\<rparr>, []) \<and>
            handleWebhook_discord verify parse' router dctx rawBody hdrs =
              (Inr \<lparr>ok = False, message = ''Invalid signature''\<rparr>, []))"
  using assms
  by (auto simp: handleWebhook_relay_def handleWebhook_discord_def signatureCheck_def
        errorResponse_def)

theorem C7_signature_rejection_witness:
  "handleWebhook_relay accepts_nothing (parses_to player_connected) matchesPattern_spec
     \<lparr>config = relay_config (Some ''https://relay.example/hook'') None,
      webhookSecret = Some ''s3cret''\<rparr>
     (replies (every_attempt (Response 200 None))) ''{}'' [(''content-type'', ''application/json'')] =
     (Inr \<lparr>ok = False, message = ''Missing signature header''\<rparr>, []) \<and>
   handleWebhook_discord accepts_nothing (parses_to player_connected)
     (answers (Inr \<lparr>ok = True, message = ''Sent to Discord''\<rparr>,
               [discord_request ''https://discord.example/hook'' ()]))
     \<lparr>config = (), webhookSecret = Some ''s3cret''\<rparr>
     ''{}'' [(''x-sentinel-signature'', ''sha256=00'')] =
     (Inr \<lparr>ok = False, message = ''Invalid signature''\<rparr>, [])"
proof -
  have configured:
    "webhookSecret \<lparr>config = relay_config (Some ''https://relay.example/hook'') None,
                    webhookSecret = Some ''s3cret''\<rparr> = Some ''s3cret''"
    "webhookSecret \<lparr>config = (), webhookSecret = Some ''s3cret''\<rparr> = Some ''s3cret''"
    "''s3cret'' \<noteq> []"
    by simp_all
  have missing: "map_of [(''content-type'', ''application/json'')] ''x-sentinel-signature'' = None"
    by simp
  have invalid:
    "map_of [(''x-sentinel-signature'', ''sha256=00'')] ''x-sentinel-signature'' = Some ''sha256=00''"
    "''sha256=00'' \<noteq> []"
    "\<not> accepts_nothing ''{}'' ''sha256=00'' ''s3cret''"
    by (simp_all add: accepts_nothing_def)
  from missing invalid
    C7_signature_rejection [where secret = "''s3cret''"
      and ctx = "\<lparr>config = relay_config (Some ''https://relay.example/hook'') None,
                  webhookSecret = Some ''s3cret''\<rparr>"
      and dctx = "\<lparr>config = (), webhookSecret = Some ''s3cret''\<rparr>"
      and hdrs = "[(''content-type'', ''application/json'')]" and signature = "[]"
      and verify = accepts_nothing and parse = "parses_to player_connected"
      and matches = matchesPattern_spec and target = "replies (every_attempt (Response 200 None))"
      and rawBody = "''{}''" and parse' = "parses_to player_connected"
      and router = "answers (Inr \<lparr>ok = True, message = ''Sent to Discord''\<rparr>,
                             [discord_request ''https://discord.example/hook'' ()])",
      OF configured]
    C7_signature_rejection [where secret = "''s3cret''"
      and ctx = "\<lparr>config = relay_config (Some ''https://relay.example/hook'') None,
                  webhookSecret = Some ''s3cret''\<rparr>"
      and dctx = "\<lparr>config = (), webhookSecret = Some ''s3cret''\<rparr>"
      and hdrs = "[(''x-sentinel-signature'', ''sha256=00'')]" and signature = "''sha256=00''"
      and verify = accepts_nothing and parse = "parses_to player_connected"
      and matches = matchesPattern_spec and target = "replies (every_attempt (Response 200 None))"
      and rawBody = "''{}''" and parse' = "parses_to player_connected"
      and router = "answers (Inr \<lparr>ok = True, message = ''Sent to Discord''\<rparr>,
                             [discord_request ''https://discord.example/hook'' ()])",
      OF configured]
  show ?thesis
    by simp
qed

theorem C7_empty_header_counterexample:
  "map_of [(''x-sentinel-signature'', [])] ''x-sentinel-signature'' = Some [] \<and>
   \<not> accepts_nothing ''{}'' [] ''s3cret'' \<and>
   handleWebhook_relay accepts_nothing (parses_to player_connected) matchesPattern_spec
     \<lparr>config = relay_config (Some ''https://relay.example/hook'') None,
      webhookSecret = Some ''s3cret''\<rparr>
     (replies (every_attempt (Response 200 None))) ''{}'' [(''x-sentinel-signature'', [])] =
     (Inr \<lparr>ok = False, message = ''Missing signature header''\<rparr>, [])"
  by (simp add: handleWebhook_relay_def signatureCheck_def errorResponse_def accepts_nothing_def)

text \<open>
  C8. In the relay handler, once the signature check has passed or was skipped and the
  raw body has been decoded: when \<open>config.targetUrl\<close> is absent (or empty) the handler
  returns \<open>ok = true\<close> with the message \<open>Target URL not configured, skipping\<close>; when
  the target is configured and the event does not match \<open>config.eventPatterns\<close> it
  returns \<open>ok = true\<close> with the message that the event does not match the patterns.
  In both cases there is no outbound effect. An absent and an empty pattern list match
  every event.
\<close>

theorem C8_relay_skips:
  assumes "\<not> truthy (webhookSecret ctx) \<or>
           (\<exists>signature secret. webhookSecret ctx = Some secret \<and>
              map_of hdrs ''x-sentinel-signature'' = Some signature \<and> signature \<noteq> [] \<and>
              verify rawBody signature secret)"
    and "parse rawBody = Some payload"
  shows "(\<not> truthy (targetUrl (config ctx)) \<longrightarrow>
            handleWebhook_relay verify parse matches ctx target rawBody hdrs =
              (Inr \<lparr>ok = True, message = ''Target URL not configured, skipping''\<rparr>, [])) \<and>
         (truthy (targetUrl (config ctx)) \<and>
          \<not> matchesEventPatterns matches (event payload) (eventPatterns (config ctx)) \<longrightarrow>
            handleWebhook_relay verify parse matches ctx target rawBody hdrs =
              (Inr \<lparr>ok = True,
                    message = ''Event '' @ [CHR 0x27] @ event payload @ [CHR 0x27] @
                              '' does not match patterns, skipping''\<rparr>, [])) \<and>
         matchesEventPatterns matches ev None \<and> matchesEventPatterns matches ev (Some [])"
proof -
  have "signatureCheck verify (webhookSecret ctx) rawBody hdrs = None"
    using assms(1) by (rule signatureCheck_passes)
  with assms(2) show ?thesis
    by (simp add: handleWebhook_relay_def successResponse_def matchesEventPatterns_def)
qed

theorem C8_relay_skips_witness:
  "handleWebhook_relay accepts_nothing (parses_to player_connected) matchesPattern_spec
     \<lparr>config = relay_config None None, webhookSecret = None\<rparr>
     (replies (every_attempt (Response 200 None))) ''{}'' [] =
     (Inr \<lparr>ok = True, message = ''Target URL not configured, skipping''\<rparr>, []) \<and>
   handleWebhook_relay accepts_nothing (parses_to player_connected) matchesPattern_spec
     \<lparr>config = relay_config (Some ''https://relay.example/hook'') (Some [''chat.*'']),
      webhookSecret = None\<rparr>
     (replies (every_attempt (Response 200 None))) ''{}'' [] =
     (Inr \<lparr>ok = True,
           message = ''Event '' @ [CHR 0x27] @ ''player.connected'' @ [CHR 0x27] @
                     '' does not match patterns, skipping''\<rparr>, [])"
proof -
  have skipped:
    "\<not> truthy (webhookSecret \<lparr>config = cfg, webhookSecret = None\<rparr>) \<or>
     (\<exists>signature secret.
        webhookSecret \<lparr>config = cfg, webhookSecret = None\<rparr> = Some secret \<and>
        map_of [] ''x-sentinel-signature'' = Some signature \<and> signature \<noteq> [] \<and>
        accepts_nothing ''{}'' signature secret)" for cfg :: IntegrationConfig
    by (simp add: truthy_def)
  have decoded: "parses_to player_connected ''{}'' = Some player_connected"
    by (simp add: parses_to_def)
  have absent: "\<not> truthy (targetUrl (relay_config None None))"
    by (simp add: truthy_def relay_config_def)
  have unmatched:
    "truthy (targetUrl (relay_config (Some ''https://relay.example/hook'') (Some [''chat.*''])))"
    "\<not> matchesEventPatterns matchesPattern_spec (event player_connected)
         (eventPatterns (relay_config (Some ''https://relay.example/hook'') (Some [''chat.*''])))"
    by (simp_all add: truthy_def relay_config_def player_connected_def matchesEventPatterns_def
          matchesPattern_spec_def)
  from absent unmatched
    C8_relay_skips [where ctx = "\<lparr>config = relay_config None None, webhookSecret = None\<rparr>"
      and hdrs = "[]" and verify = accepts_nothing and rawBody = "''{}''"
      and parse = "parses_to player_connected" and payload = player_connected
      and matches = matchesPattern_spec and target = "replies (every_attempt (Response 200 None))"
      and ev = "''player.connected''", OF skipped decoded]
    C8_relay_skips [where ctx = "\<lparr>config = relay_config (Some ''https://relay.example/hook'')
                                         (Some [''chat.*'']), webhookSecret = None\<rparr>"
      and hdrs = "[]" and verify = accepts_nothing and rawBody = "''{}''"
      and parse = "parses_to player_connected" and payload = player_connected
      and matches = matchesPattern_spec and target = "replies (every_attempt (Response 200 None))"
      and ev = "''player.connected''", OF skipped decoded]
  show ?thesis
    by (simp add: player_connected_def)
qed


text \<open>
  C9, as amended. When \<open>ctx.webhookSecret\<close> is undefined or empty, \<open>handleWebhook\<close>
  verifies nothing: for every raw body, two calls whose header maps differ only in
  \<open>x-sentinel-signature\<close> return the same response, whatever the verifier would say,
  provided the target answers the attempts of the two deliveries with the same
  outcomes; it is asked only of inputs for which the relay makes a delivery. The
  condition is needed for the relay, which forwards the header to its target unless
  \<open>config.includeOriginalHeaders\<close> is false, so that a target can tell the two requests
  apart. Under it the two deliveries of the relay also have the same requests and
  waits in time. The Discord handlers send no inbound header on: their
  responses and their outbound effects are the same without any condition.
\<close>

theorem C9_no_secret:
  assumes "\<not> truthy (webhookSecret ctx)" and "\<not> truthy (webhookSecret dctx)"
    and "\<forall>k. k \<noteq> ''x-sentinel-signature'' \<longrightarrow> map_of h1 k = map_of h2 k"
    and "\<forall>payload. parse rawBody = Some payload \<and> truthy (targetUrl (config ctx)) \<and>
             matchesEventPatterns matches (event payload) (eventPatterns (config ctx)) \<longrightarrow>
           relay_outcomes ctx target payload h1 = relay_outcomes ctx target payload h2"
  shows "fst (handleWebhook_relay verify parse matches ctx target rawBody h1) =
           fst (handleWebhook_relay verify' parse matches ctx target rawBody h2) \<and>
         timeline (snd (handleWebhook_relay verify parse matches ctx target rawBody h1)) =
           timeline (snd (handleWebhook_relay verify' parse matches ctx target rawBody h2)) \<and>
         handleWebhook_discord verify parse' router dctx rawBody h1 =
           handleWebhook_discord verify' parse' router dctx rawBody h2"
proof -
  have sig: "signatureCheck v (webhookSecret ctx) rawBody h = None"
       "signatureCheck v (webhookSecret dctx) rawBody h = None" for v h
    using assms(1,2) by (simp_all add: signatureCheck_passes)
  have discord: "handleWebhook_discord verify parse' router dctx rawBody h1 =
                 handleWebhook_discord verify' parse' router dctx rawBody h2"
    by (simp add: handleWebhook_discord_def sig)
  have relay: "fst (handleWebhook_relay verify parse matches ctx target rawBody h1) =
                 fst (handleWebhook_relay verify' parse matches ctx target rawBody h2) \<and>
               timeline (snd (handleWebhook_relay verify parse matches ctx target rawBody h1)) =
                 timeline (snd (handleWebhook_relay verify' parse matches ctx target rawBody h2))"
  proof (cases "parse rawBody")
    case None
    then show ?thesis
      by (simp add: handleWebhook_relay_def sig)
  next
    case (Some payload)
    show ?thesis
    proof (cases "truthy (targetUrl (config ctx)) \<and>
                  matchesEventPatterns matches (event payload) (eventPatterns (config ctx))")
      case True
      with Some assms(4) have
        "target (nullish (targetUrl (config ctx)) []) (buildRelayHeaders h1 (config ctx))
           (transformPayload payload (nullish (transformPayload_opt (config ctx)) False)) =
         target (nullish (targetUrl (config ctx)) []) (buildRelayHeaders h2 (config ctx))
           (transformPayload payload (nullish (transformPayload_opt (config ctx)) False))"
        by (simp add: relay_outcomes_def)
      with Some True show ?thesis
        by (simp add: handleWebhook_relay_def sig Let_def
              relay_result_headers [of _ _ "buildRelayHeaders h1 (config ctx)" _ _
                "buildRelayHeaders h2 (config ctx)"]
              relay_timeline_headers [of _ _ "buildRelayHeaders h1 (config ctx)" _ _
                "buildRelayHeaders h2 (config ctx)"])
    next
      case False
      with Some show ?thesis
        by (auto simp: handleWebhook_relay_def sig Let_def timeline_def)
    qed
  qed
  from relay discord show ?thesis
    by simp
qed

theorem C9_no_secret_witness:
  "fst (handleWebhook_relay accepts_nothing (parses_to player_connected) matchesPattern_spec
          \<lparr>config = (relay_config (Some ''https://relay.example/hook'') None)
                      \<lparr>includeOriginalHeaders := Some False\<rparr>,
           webhookSecret = None\<rparr>
          (signature_checking_target ''sha256=valid'') ''{}''
          [(''x-sentinel-signature'', ''forged'')]) =
     Inr \<lparr>ok = False, message = ''Relay failed after 1 attempt: HTTP 401: Unauthorized''\<rparr> \<and>
   timeline (snd (handleWebhook_relay accepts_nothing (parses_to player_connected)
          matchesPattern_spec
          \<lparr>config = (relay_config (Some ''https://relay.example/hook'') None)
                      \<lparr>includeOriginalHeaders := Some False\<rparr>,
           webhookSecret = None\<rparr>
          (signature_checking_target ''sha256=valid'') ''{}''
          [(''x-sentinel-signature'', ''forged'')])) = [None] \<and>
   handleWebhook_discord accepts_nothing (parses_to player_connected)
     (answers (Inr \<lparr>ok = True, message = ''Sent to Discord''\<rparr>,
               [discord_request ''https://discord.example/hook'' ()]))
     \<lparr>config = (), webhookSecret = Some []\<rparr> ''{}'' [(''x-sentinel-signature'', ''forged'')] =
     (Inr \<lparr>ok = True, message = ''Sent to Discord''\<rparr>,
      [discord_request ''https://discord.example/hook'' ()])"
proof -
  have unset:
    "\<not> truthy (webhookSecret
         \<lparr>config = (relay_config (Some ''https://relay.example/hook'') None)
                     \<lparr>includeOriginalHeaders := Some False\<rparr>,
          webhookSecret = None\<rparr>)"
    "\<not> truthy (webhookSecret \<lparr>config = (), webhookSecret = Some []\<rparr>)"
    by (simp_all add: truthy_def)
  have differ: "\<forall>k. k \<noteq> ''x-sentinel-signature'' \<longrightarrow>
      map_of [(''x-sentinel-signature'', ''forged'')] k = map_of [] k"
    by simp
  have outcomes: "\<forall>payload. parses_to player_connected ''{}'' = Some payload \<and>
        truthy (targetUrl (config
          \<lparr>config = (relay_config (Some ''https://relay.example/hook'') None)
                      \<lparr>includeOriginalHeaders := Some False\<rparr>,
           webhookSecret = None\<rparr>)) \<and>
        matchesEventPatterns matchesPattern_spec (event payload) (eventPatterns (config
          \<lparr>config = (relay_config (Some ''https://relay.example/hook'') None)
                      \<lparr>includeOriginalHeaders := Some False\<rparr>,
           webhookSecret = None\<rparr>)) \<longrightarrow>
      relay_outcomes
        \<lparr>config = (relay_config (Some ''https://relay.example/hook'') None)
                    \<lparr>includeOriginalHeaders := Some False\<rparr>,
         webhookSecret = None\<rparr>
        (signature_checking_target ''sha256=valid'') payload
        [(''x-sentinel-signature'', ''forged'')] =
      relay_outcomes
        \<lparr>config = (relay_config (Some ''https://relay.example/hook'') None)
                    \<lparr>includeOriginalHeaders := Some False\<rparr>,
         webhookSecret = None\<rparr>
        (signature_checking_target ''sha256=valid'') payload []"
    by (simp add: relay_outcomes_def buildRelayHeaders_def relay_config_def nullish_def)
  have unsigned:
    "fst (handleWebhook_relay accepts_nothing (parses_to player_connected) matchesPattern_spec
            \<lparr>config = (relay_config (Some ''https://relay.example/hook'') None)
                        \<lparr>includeOriginalHeaders := Some False\<rparr>,
             webhookSecret = None\<rparr>
            (signature_checking_target ''sha256=valid'') ''{}'' []) =
       Inr \<lparr>ok = False, message = ''Relay failed after 1 attempt: HTTP 401: Unauthorized''\<rparr>"
    "timeline (snd (handleWebhook_relay accepts_nothing (parses_to player_connected)
            matchesPattern_spec
            \<lparr>config = (relay_config (Some ''https://relay.example/hook'') None)
                        \<lparr>includeOriginalHeaders := Some False\<rparr>,
             webhookSecret = None\<rparr>
            (signature_checking_target ''sha256=valid'') ''{}'' [])) = [None]"
    "handleWebhook_discord accepts_nothing (parses_to player_connected)
       (answers (Inr \<lparr>ok = True, message = ''Sent to Discord''\<rparr>,
                 [discord_request ''https://discord.example/hook'' ()]))
       \<lparr>config = (), webhookSecret = Some []\<rparr> ''{}'' [] =
       (Inr \<lparr>ok = True, message = ''Sent to Discord''\<rparr>,
        [discord_request ''https://discord.example/hook'' ()])"
    by (simp_all add: truthy_def handleWebhook_relay_def handleWebhook_discord_def
          signatureCheck_def parses_to_def answers_def relay_config_def player_connected_def
          matchesEventPatterns_def nullish_def sendRelayRequest_def relay_loop.simps
          relay_try_def response_ok_def errorResponse_def shouldRetry_def
          formatErrorMessage_def toString_def toString_nat.simps timeline_def
          signature_checking_target_def buildRelayHeaders_def transformPayload_def)
  from
    C9_no_secret [where
      ctx = "\<lparr>config = (relay_config (Some ''https://relay.example/hook'') None)
                          \<lparr>includeOriginalHeaders := Some False\<rparr>,
               webhookSecret = None\<rparr>"
      and dctx = "\<lparr>config = (), webhookSecret = Some []\<rparr>"
      and ?h1.0 = "[(''x-sentinel-signature'', ''forged'')]" and ?h2.0 = "[]"
      and verify = accepts_nothing and verify' = accepts_nothing
      and parse = "parses_to player_connected" and matches = matchesPattern_spec
      and target = "signature_checking_target ''sha256=valid''" and rawBody = "''{}''"
      and parse' = "parses_to player_connected"
      and router = "answers (Inr \<lparr>ok = True, message = ''Sent to Discord''\<rparr>,
                             [discord_request ''https://discord.example/hook'' ()])",
      OF unset differ outcomes]
  show ?thesis
    by (simp only: unsigned)
qed

theorem C9_forwarded_signature_counterexample:
  "\<not> truthy (webhookSecret
       \<lparr>config = relay_config (Some ''https://relay.example/hook'') None, webhookSecret = None\<rparr>) \<and>
   AList.delete ''x-sentinel-signature'' [(''x-sentinel-signature'', ''sha256=valid'')] =
     AList.delete ''x-sentinel-signature'' [(''x-sentinel-signature'', ''forged'')] \<and>
   fst (handleWebhook_relay accepts_nothing (parses_to player_connected) matchesPattern_spec
          \<lparr>config = relay_config (Some ''https://relay.example/hook'') None, webhookSecret = None\<rparr>
          (signature_checking_target ''sha256=valid'') ''{}''
          [(''x-sentinel-signature'', ''sha256=valid'')]) =
     Inr \<lparr>ok = True, message = ''Relayed to (200)''\<rparr> \<and>
   fst (handleWebhook_relay accepts_nothing (parses_to player_connected) matchesPattern_spec
          \<lparr>config = relay_config (Some ''https://relay.example/hook'') None, webhookSecret = None\<rparr>
          (signature_checking_target ''sha256=valid'') ''{}''
          [(''x-sentinel-signature'', ''forged'')]) =
     Inr \<lparr>ok = False, message = ''Relay failed after 1 attempt: HTTP 401: Unauthorized''\<rparr>"
  by (simp add: truthy_def handleWebhook_relay_def signatureCheck_def parses_to_def
        relay_config_def player_connected_def matchesEventPatterns_def nullish_def
        sendRelayRequest_def relay_loop.simps relay_try_def response_ok_def errorResponse_def
        successResponse_def shouldRetry_def formatErrorMessage_def formatSuccessMessage_def
        toString_def toString_nat.simps signature_checking_target_def buildRelayHeaders_def
        transformPayload_def toLowerCase_def startsWith_def assign_def)

section \<open>Outbound headers of the relay\<close>

text \<open>
  What \<open>buildRelayHeaders\<close> does for every configuration. Two original header objects
  (lists of entries with distinct names) that agree on every name whose lowercase form
  starts with \<open>x-sentinel-\<close> give outputs with the same entries. The output always has a
  \<open>Content-Type\<close> entry. When \<open>config.secretHeader\<close> and \<open>config.secretValue\<close> are both
  non-empty and the header name is not \<open>__proto__\<close>, the output is the output for the
  configuration without secret header with the secret entry set; otherwise it is that
  output unchanged.
\<close>

lemma relay_headers:
  assumes "distinct (map fst h1)" and "distinct (map fst h2)"
    and "\<forall>k. startsWith (toLowerCase k) ''x-sentinel-'' \<longrightarrow> map_of h1 k = map_of h2 k"
  shows "map_of (buildRelayHeaders h1 cfg) = map_of (buildRelayHeaders h2 cfg) \<and>
         ''Content-Type'' \<in> dom (map_of (buildRelayHeaders h1 cfg)) \<and>
         buildRelayHeaders h1 cfg =
           (if truthy (secretHeader cfg) \<and> truthy (secretValue cfg) \<and>
               secretHeader cfg \<noteq> Some ''__proto__''
            then AList.update (nullish (secretHeader cfg) []) (nullish (secretValue cfg) [])
                   (buildRelayHeaders h1 (cfg\<lparr>secretHeader := None\<rparr>))
            else buildRelayHeaders h1 (cfg\<lparr>secretHeader := None\<rparr>))"
proof -
  let ?P = "\<lambda>key. startsWith (toLowerCase key) ''x-sentinel-'' \<and> key \<noteq> ''__proto__''"
  define forward where "forward h =
      (if nullish (includeOriginalHeaders cfg) True then
         fold (\<lambda>(key, val) hs. if ?P key then AList.update key val hs else hs)
           h [(''Content-Type'', ''application/json'')]
       else [(''Content-Type'', ''application/json'')])" for h
  define custom where "custom hs =
      (case customHeaders cfg of
         Some entries \<Rightarrow>
           fold (\<lambda>(key, val) hs. if key \<noteq> ''__proto__'' then AList.update key val hs else hs)
             entries hs
       | None \<Rightarrow> hs)" for hs
  define secret where "secret hs =
      (case (secretHeader cfg, secretValue cfg) of
         (Some sh, Some sv) \<Rightarrow> if sh \<noteq> [] \<and> sv \<noteq> [] then assign sh sv hs else hs
       | _ \<Rightarrow> hs)" for hs
  have build: "buildRelayHeaders h cfg = secret (custom (forward h))" for h
    by (simp add: buildRelayHeaders_def forward_def custom_def secret_def Let_def
          forward_step custom_step split: option.splits)
  have without: "buildRelayHeaders h (cfg\<lparr>secretHeader := None\<rparr>) = custom (forward h)" for h
    by (simp add: buildRelayHeaders_def forward_def custom_def Let_def forward_step custom_step
          split: option.splits)
  have agree: "\<forall>k. ?P k \<longrightarrow> map_of h1 k = map_of h2 k"
    using assms(3) by simp
  have forward: "map_of (forward h1) = map_of (forward h2)"
    using forwarded_agree [where P = ?P, OF assms(1,2) agree] by (simp add: forward_def)
  have custom: "map_of (custom a) = map_of (custom b)" if "map_of a = map_of b" for a b
  proof (cases "customHeaders cfg")
    case None
    with that show ?thesis by (simp add: custom_def)
  next
    case (Some entries)
    then show ?thesis by (simp add: custom_def updates_agree [OF that])
  qed
  have secret: "map_of (secret a) = map_of (secret b)" if "map_of a = map_of b" for a b
    using that by (simp add: secret_def assign_def update_conv' split: option.splits)
  have same: "map_of (buildRelayHeaders h1 cfg) = map_of (buildRelayHeaders h2 cfg)"
    by (simp only: build secret [OF custom [OF forward]])
  have base: "map_of [(''Content-Type'', ''application/json'')] ''Content-Type'' \<noteq> None"
    by simp
  have kept1: "map_of (forward h1) ''Content-Type'' \<noteq> None"
  proof (cases "nullish (includeOriginalHeaders cfg) True")
    case True
    then show ?thesis by (simp only: forward_def if_True forwarded_keeps [OF base] not_False_eq_True)
  next
    case False
    then show ?thesis by (simp only: forward_def if_False base not_False_eq_True)
  qed
  have kept2: "map_of (custom (forward h1)) ''Content-Type'' \<noteq> None"
  proof (cases "customHeaders cfg")
    case None
    then show ?thesis by (simp only: custom_def option.case kept1 not_False_eq_True)
  next
    case (Some entries)
    then show ?thesis
      by (simp only: custom_def option.case forwarded_keeps [OF kept1] not_False_eq_True)
  qed
  have kept3: "map_of (secret hs) ''Content-Type'' \<noteq> None"
    if "map_of hs ''Content-Type'' \<noteq> None" for hs
    using that by (auto simp: secret_def assign_def update_conv' split: option.splits)
  have content: "''Content-Type'' \<in> dom (map_of (buildRelayHeaders h1 cfg))"
    using kept3 [OF kept2] by (simp add: build domIff)
  have "secret hs =
          (if truthy (secretHeader cfg) \<and> truthy (secretValue cfg) \<and>
              secretHeader cfg \<noteq> Some ''__proto__''
           then AList.update (nullish (secretHeader cfg) []) (nullish (secretValue cfg) []) hs
           else hs)" for hs
    by (simp add: secret_def assign_def truthy_def nullish_def split: option.splits)
  then have added: "buildRelayHeaders h1 cfg =
           (if truthy (secretHeader cfg) \<and> truthy (secretValue cfg) \<and>
               secretHeader cfg \<noteq> Some ''__proto__''
            then AList.update (nullish (secretHeader cfg) []) (nullish (secretValue cfg) [])
                   (buildRelayHeaders h1 (cfg\<lparr>secretHeader := None\<rparr>))
            else buildRelayHeaders h1 (cfg\<lparr>secretHeader := None\<rparr>))"
    by (simp only: build without)
  from same content added show ?thesis by (intro conjI)
qed

lemma relay_headers_example:
  "map_of (buildRelayHeaders [(''X-Sentinel-Event'', ''player.connected''), (''Cookie'', ''a=1'')]
             ((relay_config None None)\<lparr>secretHeader := Some ''X-Relay-Secret'',
                                         secretValue := Some ''k''\<rparr>)) =
     map_of [(''Content-Type'', ''application/json''), (''X-Sentinel-Event'', ''player.connected''),
             (''X-Relay-Secret'', ''k'')] \<and>
   buildRelayHeaders [(''Authorization'', ''Bearer t''), (''X-Sentinel-Event'', ''player.connected'')]
     ((relay_config None None)\<lparr>secretHeader := Some ''X-Relay-Secret'', secretValue := Some ''k''\<rparr>) =
     [(''Content-Type'', ''application/json''), (''X-Sentinel-Event'', ''player.connected''),
      (''X-Relay-Secret'', ''k'')]"
proof -
  have objects:
    "distinct (map fst [(''X-Sentinel-Event'', ''player.connected''), (''Cookie'', ''a=1'')])"
    "distinct (map fst [(''Authorization'', ''Bearer t''), (''X-Sentinel-Event'', ''player.connected'')])"
    by simp_all
  have agree: "\<forall>k. startsWith (toLowerCase k) ''x-sentinel-'' \<longrightarrow>
      map_of [(''X-Sentinel-Event'', ''player.connected''), (''Cookie'', ''a=1'')] k =
      map_of [(''Authorization'', ''Bearer t''), (''X-Sentinel-Event'', ''player.connected'')] k"
    by (simp add: toLowerCase_def startsWith_def)
  have other:
    "buildRelayHeaders [(''Authorization'', ''Bearer t''), (''X-Sentinel-Event'', ''player.connected'')]
       ((relay_config None None)\<lparr>secretHeader := Some ''X-Relay-Secret'', secretValue := Some ''k''\<rparr>) =
       [(''Content-Type'', ''application/json''), (''X-Sentinel-Event'', ''player.connected''),
        (''X-Relay-Secret'', ''k'')]"
    by (simp add: buildRelayHeaders_def relay_config_def nullish_def toLowerCase_def startsWith_def
          assign_def)
  note run = relay_headers [where
      ?h1.0 = "[(''X-Sentinel-Event'', ''player.connected''), (''Cookie'', ''a=1'')]"
      and ?h2.0 = "[(''Authorization'', ''Bearer t''), (''X-Sentinel-Event'', ''player.connected'')]"
      and cfg = "(relay_config None None)\<lparr>secretHeader := Some ''X-Relay-Secret'',
                                              secretValue := Some ''k''\<rparr>",
      OF objects agree]
  from run [THEN conjunct1] other show ?thesis
    by simp
qed

text \<open>
  C10. \<open>buildRelayHeaders\<close> is to add the secret header exactly when
  \<open>config.secretHeader\<close> and \<open>config.secretValue\<close> are both non-empty. For the header
  name \<open>__proto__\<close> and the value \<open>k\<close>, both non-empty, it does not: the output is the
  \<open>Content-Type\<close> entry alone, with no entry of that name, the same as for the
  configuration without secret header; for the header name \<open>X-Relay-Secret\<close> and the
  same value the entry is added.
\<close>

theorem C10_secret_header_proto:
  "truthy (secretHeader ((relay_config None None)\<lparr>secretHeader := Some ''__proto__'',
                                                    secretValue := Some ''k''\<rparr>)) \<and>
   truthy (secretValue ((relay_config None None)\<lparr>secretHeader := Some ''__proto__'',
                                                   secretValue := Some ''k''\<rparr>)) \<and>
   buildRelayHeaders []
     ((relay_config None None)\<lparr>secretHeader := Some ''__proto__'', secretValue := Some ''k''\<rparr>) =
     [(''Content-Type'', ''application/json'')] \<and>
   map_of (buildRelayHeaders []
     ((relay_config None None)\<lparr>secretHeader := Some ''__proto__'', secretValue := Some ''k''\<rparr>))
     ''__proto__'' = None \<and>
   buildRelayHeaders []
     ((relay_config None None)\<lparr>secretHeader := Some ''__proto__'', secretValue := Some ''k''\<rparr>) =
     buildRelayHeaders [] ((relay_config None None)\<lparr>secretValue := Some ''k''\<rparr>) \<and>
   buildRelayHeaders []
     ((relay_config None None)\<lparr>secretHeader := Some ''X-Relay-Secret'', secretValue := Some ''k''\<rparr>) =
     [(''Content-Type'', ''application/json''), (''X-Relay-Secret'', ''k'')]"
  by (simp add: buildRelayHeaders_def relay_config_def nullish_def truthy_def assign_def)

end
